theory Spec2Isabelle
  imports Main "HOL-Library.AList"
begin

section \<open>Container manager: configuration and data\<close>

text \<open>
  A shallow embedding of \<^verbatim>\<open>container-manager/main.py\<close>. Every endpoint is a function
  from the world before the call to the raised exception or the returned body, and the
  world after it. The world holds the module's globals (the session table
  \<^verbatim>\<open>active_containers\<close>, \<^verbatim>\<open>_docker_client\<close>, \<^verbatim>\<open>_docker_available\<close>), the registry file
  and the Docker daemon as the program sees it.

  \<^item> The session table is a Python dict: an association list in insertion order, read with
    \<open>map_of\<close>, written with \<open>AList.update\<close> (a new key goes to the end, an old key keeps
    its place) and \<open>AList.delete\<close>.
  \<^item> The lock around the table is not modelled: one call is one transition.
  \<^item> The clock (\<^verbatim>\<open>datetime.now()\<close>), the UUID of a new session and what a process
    prints are inputs of the call that reads them.
  \<^item> The registry file is unreadable or parses to a YAML document: anything that is not
    a mapping, or a mapping whose \<^verbatim>\<open>containers\<close> key is absent, is not a mapping, or maps
    names to entries; an entry is null, not a mapping, or a profile.
\<close>

definition MAX_OUTPUT_LENGTH :: nat where "MAX_OUTPUT_LENGTH = 10000"
definition DEFAULT_SESSION_TTL :: int where "DEFAULT_SESSION_TTL = 300"
definition MAX_SESSION_TTL :: int where "MAX_SESSION_TTL = 3600"
definition CLEANUP_INTERVAL :: int where "CLEANUP_INTERVAL = 30"

text \<open>
  Exceptions. \<^verbatim>\<open>docker.errors.ImageNotFound\<close> is a subclass of \<^verbatim>\<open>NotFound\<close>, which is a
  subclass of \<^verbatim>\<open>APIError\<close>; \<^verbatim>\<open>DockerException\<close> stands for every other exception a
  Docker call raises. \<^verbatim>\<open>HTTPException\<close> (itself a subclass of \<^verbatim>\<open>Exception\<close>) carries
  its status code; the \<^verbatim>\<open>detail\<close> text is not modelled.
\<close>

datatype exn =
    NotFound
  | ImageNotFound
  | APIError
  | DockerException
  | ValueError
  | TypeError
  | OverflowError
  | AttributeError
  | UnicodeDecodeError
  | HTTPException nat

fun is_ImageNotFound :: "exn \<Rightarrow> bool" where
  "is_ImageNotFound ImageNotFound = True"
| "is_ImageNotFound _ = False"

fun is_NotFound :: "exn \<Rightarrow> bool" where
  "is_NotFound NotFound = True"
| "is_NotFound ImageNotFound = True"
| "is_NotFound _ = False"

fun is_APIError :: "exn \<Rightarrow> bool" where
  "is_APIError NotFound = True"
| "is_APIError ImageNotFound = True"
| "is_APIError APIError = True"
| "is_APIError _ = False"

text \<open>The test \<^verbatim>\<open>"NotFound" in str(type(e))\<close> of \<^verbatim>\<open>container_exec\<close>.\<close>

fun NotFound_in_type_name :: "exn \<Rightarrow> bool" where
  "NotFound_in_type_name NotFound = True"
| "NotFound_in_type_name ImageNotFound = True"
| "NotFound_in_type_name _ = False"

text \<open>
  What the client receives: FastAPI answers 200 with the returned body, the status of a
  raised \<^verbatim>\<open>HTTPException\<close>, and 500 for any other exception that leaves the endpoint.
\<close>

fun http_status :: "exn + 'a \<Rightarrow> nat" where
  "http_status (Inr _) = 200"
| "http_status (Inl (HTTPException s)) = s"
| "http_status (Inl _) = 500"

text \<open>
  A profile of the registry. \<^verbatim>\<open>cpus\<close> is read with \<^verbatim>\<open>int(float(v) * 100000)\<close>; the
  floating-point product is not modelled: a truthy value is given by the quota it yields,
  or as unparsable (\<^verbatim>\<open>float\<close> raises \<^verbatim>\<open>ValueError\<close>).
\<close>

datatype cpus = NoCpus | CpuQuota int | CpuUnparsable

record config =
  image :: "string option"
  build_context :: "string option"
  network_mode :: "string option"
  read_only :: bool
  memory :: "string option"
  cpus :: cpus

text \<open>
  A session record: the dict \<^verbatim>\<open>session_info\<close> that \<^verbatim>\<open>container_start\<close> builds and
  \<^verbatim>\<open>track_container\<close> completes. The keys of the dict literal are always there; the
  keys that are set later are options. Timestamps are naive \<^verbatim>\<open>datetime\<close>s, stored as
  ISO strings and parsed back unchanged: here the number of microseconds since
  \<^verbatim>\<open>datetime.min\<close>.
\<close>

record info =
  name :: string
  config :: config
  persistent :: bool
  ttl_seconds :: int
  ttyd_port :: "string option"
  ttyd_enabled :: "bool option"
  ttyd_url :: "string option option"
  session_id :: "string option"
  started_at :: "int option"
  last_activity :: "int option"

text \<open>
  The Docker daemon as the program sees it. \<open>engine\<close> maps the identifier a container is
  addressed by to its status. \<open>faults\<close> gives, for each kind of SDK call, what the daemon
  answers to the coming calls of that kind: \<open>Some e\<close> raises \<open>e\<close>, \<open>None\<close> (or an exhausted
  list) lets the call take its normal course.
\<close>

datatype engine_op =
  FromEnv | Ping | Build | Run | ExecRun | Reload | PutArchive | Get | Stop | Remove

text \<open>
  What \<^verbatim>\<open>yaml.safe_load\<close> returns for the registry file. A document that is not a mapping
  stands for \<^verbatim>\<open>None\<close> (an empty file), a list or a scalar. In a mapping, the value under
  \<^verbatim>\<open>containers\<close> is absent, is not a mapping (\<^verbatim>\<open>None\<close> for a bare key, a list, a scalar),
  or maps each name to an entry: \<open>None\<close> for a YAML null, a value that is not a mapping,
  or a profile. An entry that is a mapping is taken to be a profile with fields of the
  types above.
\<close>

datatype entry = NotAProfile | Profile config

datatype containers_value =
    NoContainersKey
  | ContainersNotMapping
  | Containers "(string \<times> entry option) list"

datatype document = NotMapping | Mapping containers_value

record world =
  registry :: "document option"
  active_containers :: "(string \<times> info) list"
  docker_client :: bool
  docker_available :: "bool option"
  engine :: "(string \<times> string) list"
  faults :: "engine_op \<Rightarrow> exn option list"

section \<open>The Docker SDK\<close>

text \<open>The keyword arguments of \<^verbatim>\<open>containers.run\<close>.\<close>

record container_options =
  opt_image :: string
  opt_detach :: bool
  opt_remove :: bool
  opt_tty :: bool
  opt_stdin_open :: bool
  opt_network_mode :: "string option"
  opt_ports :: bool
  opt_mem_limit :: "string option"
  opt_cpu_period :: "int option"
  opt_cpu_quota :: "int option"
  opt_read_only :: bool

definition pop_fault :: "engine_op \<Rightarrow> world \<Rightarrow> exn option \<times> world" where
  "pop_fault op w =
     (case faults w op of
        [] \<Rightarrow> (None, w)
      | r # rs \<Rightarrow> (r, w\<lparr>faults := (faults w)(op := rs)\<rparr>))"

text \<open>\<^verbatim>\<open>client.containers.get(id)\<close>: the status of the container, or \<^verbatim>\<open>NotFound\<close>.\<close>

definition containers_get :: "string \<Rightarrow> world \<Rightarrow> (exn + string) \<times> world" where
  "containers_get cid w =
     (case pop_fault Get w of
        (Some e, w1) \<Rightarrow> (Inl e, w1)
      | (None, w1) \<Rightarrow>
          (case map_of (engine w1) cid of
             None \<Rightarrow> (Inl NotFound, w1)
           | Some st \<Rightarrow> (Inr st, w1)))"

text \<open>\<^verbatim>\<open>container.stop(timeout=5)\<close>.\<close>

definition sdk_stop :: "string \<Rightarrow> world \<Rightarrow> (exn + unit) \<times> world" where
  "sdk_stop cid w =
     (case pop_fault Stop w of
        (Some e, w1) \<Rightarrow> (Inl e, w1)
      | (None, w1) \<Rightarrow>
          (case map_of (engine w1) cid of
             None \<Rightarrow> (Inl NotFound, w1)
           | Some st \<Rightarrow> (Inr (), w1\<lparr>engine := AList.update cid ''exited'' (engine w1)\<rparr>)))"

text \<open>\<^verbatim>\<open>container.remove()\<close>: without \<^verbatim>\<open>force\<close> the daemon refuses a running container.\<close>

definition sdk_remove :: "string \<Rightarrow> world \<Rightarrow> (exn + unit) \<times> world" where
  "sdk_remove cid w =
     (case pop_fault Remove w of
        (Some e, w1) \<Rightarrow> (Inl e, w1)
      | (None, w1) \<Rightarrow>
          (case map_of (engine w1) cid of
             None \<Rightarrow> (Inl NotFound, w1)
           | Some st \<Rightarrow>
               if st = ''running'' then (Inl APIError, w1)
               else (Inr (), w1\<lparr>engine := AList.delete cid (engine w1)\<rparr>)))"

text \<open>
  \<^verbatim>\<open>client.containers.run(**options)\<close> with \<^verbatim>\<open>detach=True\<close>: the daemon creates a running
  container under the identifier \<open>new_id\<close> it chooses; the manager addresses it by the
  first 12 characters.
\<close>

definition containers_run ::
  "container_options \<Rightarrow> string \<Rightarrow> world \<Rightarrow> (exn + string) \<times> world" where
  "containers_run options new_id w =
     (case pop_fault Run w of
        (Some e, w1) \<Rightarrow> (Inl e, w1)
      | (None, w1) \<Rightarrow>
          (Inr new_id, w1\<lparr>engine := AList.update (take 12 new_id) ''running'' (engine w1)\<rparr>))"

text \<open>Calls on a container that leave the daemon's table as it is.\<close>

definition sdk_call :: "engine_op \<Rightarrow> string \<Rightarrow> world \<Rightarrow> (exn + unit) \<times> world" where
  "sdk_call op cid w =
     (case pop_fault op w of
        (Some e, w1) \<Rightarrow> (Inl e, w1)
      | (None, w1) \<Rightarrow>
          (case map_of (engine w1) cid of
             None \<Rightarrow> (Inl NotFound, w1)
           | Some st \<Rightarrow> (Inr (), w1)))"

text \<open>
  What a process run by \<^verbatim>\<open>exec_run(cmd, demux=True)\<close> leaves: its exit code and its two
  streams, each absent (\<^verbatim>\<open>None\<close> or empty), decodable text, or bytes that are not UTF-8.
\<close>

datatype stream = Absent | Decodes string | Undecodable

record exec_output =
  exit_code :: int
  out_stream :: stream
  err_stream :: stream

text \<open>
  \<^verbatim>\<open>container.exec_run(cmd, ...)\<close>: the daemon refuses a container that is not running;
  \<open>out\<close> is what the call returns when it succeeds.
\<close>

definition exec_run :: "'a \<Rightarrow> string \<Rightarrow> world \<Rightarrow> (exn + 'a) \<times> world" where
  "exec_run out cid w =
     (case pop_fault ExecRun w of
        (Some e, w1) \<Rightarrow> (Inl e, w1)
      | (None, w1) \<Rightarrow>
          (case map_of (engine w1) cid of
             None \<Rightarrow> (Inl NotFound, w1)
           | Some st \<Rightarrow>
               if st = ''running'' then (Inr out, w1) else (Inl APIError, w1)))"

text \<open>\<^verbatim>\<open>b.decode() if b else ""\<close>.\<close>

fun decode :: "stream \<Rightarrow> exn + string" where
  "decode Absent = Inr []"
| "decode (Decodes s) = Inr s"
| "decode Undecodable = Inl UnicodeDecodeError"

section \<open>Engine client and session table\<close>

definition get_docker_client :: "world \<Rightarrow> bool \<times> world" where
  "get_docker_client w =
     (if docker_available w = Some False then (False, w)
      else if \<not> docker_client w then
        (case pop_fault FromEnv w of
           (Some e, w1) \<Rightarrow> (False, w1\<lparr>docker_available := Some False\<rparr>)
         | (None, w1) \<Rightarrow>
             (case pop_fault Ping (w1\<lparr>docker_client := True\<rparr>) of
                (Some e, w2) \<Rightarrow> (False, w2\<lparr>docker_available := Some False\<rparr>)
              | (None, w2) \<Rightarrow> (True, w2\<lparr>docker_available := Some True\<rparr>)))
      else (True, w))"

definition track_container :: "int \<Rightarrow> string \<Rightarrow> string \<Rightarrow> info \<Rightarrow> world \<Rightarrow> world" where
  "track_container now uuid4 container_id i w =
     (let i1 = (if session_id i = None then i\<lparr>session_id := Some uuid4\<rparr> else i);
          i2 = (if started_at i1 = None then i1\<lparr>started_at := Some now\<rparr> else i1);
          i3 = (if last_activity i2 = None then i2\<lparr>last_activity := Some now\<rparr> else i2)
      in w\<lparr>active_containers := AList.update container_id i3 (active_containers w)\<rparr>)"

definition update_container_activity :: "int \<Rightarrow> string \<Rightarrow> world \<Rightarrow> bool \<times> world" where
  "update_container_activity now container_id w =
     (case map_of (active_containers w) container_id of
        Some i \<Rightarrow>
          (True, w\<lparr>active_containers :=
                     AList.update container_id (i\<lparr>last_activity := Some now\<rparr>) (active_containers w)\<rparr>)
      | None \<Rightarrow> (False, w))"

definition get_container_session :: "string \<Rightarrow> world \<Rightarrow> info option" where
  "get_container_session container_id w = map_of (active_containers w) container_id"

definition untrack_container :: "string \<Rightarrow> world \<Rightarrow> bool \<times> world" where
  "untrack_container container_id w =
     (if map_of (active_containers w) container_id \<noteq> None
      then (True, w\<lparr>active_containers := AList.delete container_id (active_containers w)\<rparr>)
      else (False, w))"

definition is_container_tracked :: "string \<Rightarrow> world \<Rightarrow> bool" where
  "is_container_tracked container_id w \<longleftrightarrow> map_of (active_containers w) container_id \<noteq> None"

definition get_tracked_containers :: "world \<Rightarrow> (string \<times> info) list" where
  "get_tracked_containers w = active_containers w"

section \<open>Registry\<close>

text \<open>
  \<^verbatim>\<open>load_registry\<close>: what the file parses to; only an exception (the file cannot be opened
  or is not YAML, here \<open>None\<close>) gives the empty catalog \<^verbatim>\<open>{"containers": {}, "settings": {}}\<close>.
\<close>

definition load_registry :: "world \<Rightarrow> document" where
  "load_registry w = (case registry w of None \<Rightarrow> Mapping (Containers []) | Some d \<Rightarrow> d)"

text \<open>
  \<^verbatim>\<open>registry.get("containers", {}).get(name)\<close>: a receiver that has no \<^verbatim>\<open>get\<close> raises
  \<^verbatim>\<open>AttributeError\<close>; a name that is absent and a name whose entry is null both give
  \<^verbatim>\<open>None\<close>.
\<close>

definition get_container_config :: "string \<Rightarrow> world \<Rightarrow> exn + entry option" where
  "get_container_config n w =
     (case load_registry w of
        NotMapping \<Rightarrow> Inl AttributeError
      | Mapping NoContainersKey \<Rightarrow> Inr None
      | Mapping ContainersNotMapping \<Rightarrow> Inl AttributeError
      | Mapping (Containers cs) \<Rightarrow>
          Inr (case map_of cs n of None \<Rightarrow> None | Some v \<Rightarrow> v))"

definition is_container_allowed :: "string \<Rightarrow> world \<Rightarrow> exn + bool" where
  "is_container_allowed n w =
     (case get_container_config n w of
        Inl e \<Rightarrow> Inl e
      | Inr c \<Rightarrow> Inr (c \<noteq> None))"

section \<open>Stopping a container\<close>

record stop_response =
  stop_status :: string
  stop_container_id :: string

text \<open>The body of the \<^verbatim>\<open>try\<close> block of \<^verbatim>\<open>container_stop\<close>.\<close>

definition container_stop_try :: "string \<Rightarrow> world \<Rightarrow> (exn + stop_response) \<times> world" where
  "container_stop_try container_id w =
     (case containers_get container_id w of
        (Inl e, w1) \<Rightarrow> (Inl e, w1)
      | (Inr st, w1) \<Rightarrow>
          (case
             (if st = ''exited'' \<or> st = ''dead''
              then (Inr (), snd (sdk_remove container_id w1))
              else
                (case sdk_stop container_id w1 of
                   (Inl e, w2) \<Rightarrow> (Inl e, w2)
                 | (Inr u, w2) \<Rightarrow> sdk_remove container_id w2))
           of
             (Inl e, w3) \<Rightarrow> (Inl e, w3)
           | (Inr u, w3) \<Rightarrow>
               (Inr \<lparr>stop_status = ''stopped'', stop_container_id = container_id\<rparr>,
                snd (untrack_container container_id w3))))"

definition container_stop :: "string \<Rightarrow> world \<Rightarrow> (exn + stop_response) \<times> world" where
  "container_stop container_id w =
     (case get_docker_client w of
        (False, w1) \<Rightarrow>
          (Inr \<lparr>stop_status = ''no_docker'', stop_container_id = container_id\<rparr>,
           snd (untrack_container container_id w1))
      | (True, w1) \<Rightarrow>
          (case container_stop_try container_id w1 of
             (Inr r, w2) \<Rightarrow> (Inr r, w2)
           | (Inl e, w2) \<Rightarrow>
               if is_NotFound e then
                 (Inr \<lparr>stop_status = ''already_stopped'', stop_container_id = container_id\<rparr>,
                  snd (untrack_container container_id w2))
               else if is_APIError e then
                 (Inr \<lparr>stop_status = ''error_but_cleaned'', stop_container_id = container_id\<rparr>,
                  snd (untrack_container container_id w2))
               else
                 (Inr \<lparr>stop_status = ''error_but_cleaned'', stop_container_id = container_id\<rparr>,
                  snd (untrack_container container_id w2))))"

section \<open>Starting a container\<close>

record start_request =
  container_name :: string
  code :: "string option"
  command :: "string option"
  timeout :: "int option"
  keep_alive :: bool
  req_ttl_seconds :: "int option"
  enable_ttyd :: bool

text \<open>
  What one call of \<^verbatim>\<open>container_start\<close> reads from outside the program: the clock, the
  UUID drawn for the session, the identifier the daemon gives the new container, the
  host ports published for \<^verbatim>\<open>7681/tcp\<close> after the reload, and what the injected code
  prints. The call reads the clock once.
\<close>

record start_env =
  env_now :: int
  env_uuid4 :: string
  env_new_id :: string
  env_port_info :: "string list option"
  env_code_output :: exec_output

record execution_result =
  res_exit_code :: int
  res_stdout :: string
  res_stderr :: string

record start_session =
  ss_session_id :: "string option"
  ss_persistent :: bool
  ss_ttl_seconds :: int
  ss_ttyd_url :: "string option"

record start_response =
  start_status :: string
  start_container_id :: string
  start_container_name :: string
  start_execution_result :: "execution_result option"
  start_session :: "start_session option"

text \<open>Python's truth test on an optional string: \<^verbatim>\<open>None\<close> and \<^verbatim>\<open>""\<close> are false.\<close>

fun truthy :: "string option \<Rightarrow> bool" where
  "truthy None = False"
| "truthy (Some s) = (s \<noteq> [])"

text \<open>\<^verbatim>\<open>request.ttl_seconds or DEFAULT_SESSION_TTL\<close>: \<^verbatim>\<open>None\<close> and \<^verbatim>\<open>0\<close> are false.\<close>

fun ttl_or_default :: "int option \<Rightarrow> int" where
  "ttl_or_default None = DEFAULT_SESSION_TTL"
| "ttl_or_default (Some n) = (if n = 0 then DEFAULT_SESSION_TTL else n)"

definition build_image_if_needed :: "string \<Rightarrow> config \<Rightarrow> world \<Rightarrow> string \<times> world" where
  "build_image_if_needed cname cfg w =
     (let image_name = (case image cfg of
                          Some x \<Rightarrow> x
                        | None \<Rightarrow> ''jarvis-'' @ cname @ '':latest'')
      in case get_docker_client w of
           (False, w1) \<Rightarrow> (image_name, w1)
         | (True, w1) \<Rightarrow>
             if truthy (build_context cfg)
             then (image_name, snd (pop_fault Build w1))
             else (image_name, w1))"

text \<open>
  The options handed to \<^verbatim>\<open>containers.run\<close>: network isolation unless ttyd is enabled,
  the published ttyd port, the resource limits and the read-only flag.
\<close>

definition build_options :: "start_request \<Rightarrow> config \<Rightarrow> string \<Rightarrow> exn + container_options" where
  "build_options request cfg image_name =
     (let nm = (case network_mode cfg of None \<Rightarrow> ''none'' | Some m \<Rightarrow> m);
          o1 = \<lparr>opt_image = image_name, opt_detach = True, opt_remove = False, opt_tty = True,
                opt_stdin_open = True,
                opt_network_mode = (if nm = ''none'' then Some ''none'' else None),
                opt_ports = False, opt_mem_limit = None, opt_cpu_period = None,
                opt_cpu_quota = None, opt_read_only = False\<rparr>;
          o2 = (if enable_ttyd request
                then (if nm = ''none'' then o1\<lparr>opt_network_mode := None\<rparr> else o1)
                       \<lparr>opt_ports := True\<rparr>
                else o1);
          o3 = (if truthy (memory cfg) then o2\<lparr>opt_mem_limit := memory cfg\<rparr> else o2)
      in case cpus cfg of
           CpuUnparsable \<Rightarrow> Inl ValueError
         | NoCpus \<Rightarrow> Inr (if read_only cfg then o3\<lparr>opt_read_only := True\<rparr> else o3)
         | CpuQuota q \<Rightarrow>
             (let o4 = o3\<lparr>opt_cpu_period := Some 100000, opt_cpu_quota := Some q\<rparr>
              in Inr (if read_only cfg then o4\<lparr>opt_read_only := True\<rparr> else o4)))"

text \<open>
  The ttyd block: start the daemon detached, reload, read the host port. Any exception
  is logged and dropped; the two ttyd keys are set afterwards in either case.
\<close>

definition ttyd_bring_up ::
  "start_env \<Rightarrow> string \<Rightarrow> info \<Rightarrow> world \<Rightarrow> (string option \<times> info) \<times> world" where
  "ttyd_bring_up env container_id i w =
     (let (r, w3) =
            (case exec_run () container_id w of
               (Inl e, w1) \<Rightarrow> ((None, i), w1)
             | (Inr u, w1) \<Rightarrow>
                 (case sdk_call Reload container_id w1 of
                    (Inl e, w2) \<Rightarrow> ((None, i), w2)
                  | (Inr u, w2) \<Rightarrow>
                      (case env_port_info env of
                         Some (host_port # ps) \<Rightarrow>
                           ((Some (''http://localhost:'' @ host_port),
                             i\<lparr>ttyd_port := Some host_port\<rparr>), w2)
                       | _ \<Rightarrow> ((None, i), w2))))
      in ((fst r, (snd r)\<lparr>ttyd_enabled := Some True, ttyd_url := Some (fst r)\<rparr>), w3))"

text \<open>The \<^verbatim>\<open>if request.code:\<close> block: upload \<^verbatim>\<open>code.py\<close>, run it, decode and truncate.\<close>

definition run_code ::
  "start_env \<Rightarrow> string \<Rightarrow> world \<Rightarrow> (exn + execution_result) \<times> world" where
  "run_code env container_id w =
     (case sdk_call PutArchive container_id w of
        (Inl e, w1) \<Rightarrow> (Inl e, w1)
      | (Inr u, w1) \<Rightarrow>
          (case exec_run (env_code_output env) container_id w1 of
             (Inl e, w2) \<Rightarrow> (Inl e, w2)
           | (Inr out, w2) \<Rightarrow>
               (case decode (out_stream out) of
                  Inl e \<Rightarrow> (Inl e, w2)
                | Inr stdout \<Rightarrow>
                    (case decode (err_stream out) of
                       Inl e \<Rightarrow> (Inl e, w2)
                     | Inr stderr \<Rightarrow>
                         (Inr \<lparr>res_exit_code = exit_code out,
                               res_stdout = take MAX_OUTPUT_LENGTH stdout,
                               res_stderr = take MAX_OUTPUT_LENGTH stderr\<rparr>, w2)))))"

text \<open>
  The clean-up of a non-persistent start: stop, remove and untrack inside one \<^verbatim>\<open>try\<close>
  whose \<^verbatim>\<open>except\<close> passes.
\<close>

definition one_shot_cleanup :: "string \<Rightarrow> world \<Rightarrow> world" where
  "one_shot_cleanup container_id w =
     (case sdk_stop container_id w of
        (Inl e, w1) \<Rightarrow> w1
      | (Inr u, w1) \<Rightarrow>
          (case sdk_remove container_id w1 of
             (Inl e, w2) \<Rightarrow> w2
           | (Inr u, w2) \<Rightarrow> snd (untrack_container container_id w2)))"

text \<open>
  The end of the \<^verbatim>\<open>try\<close> block of \<^verbatim>\<open>container_start\<close>, after the record is tracked:
  run the code if there is any, clean up a non-persistent start that produced a result,
  and build the response.
\<close>

definition execute_and_respond ::
  "start_env \<Rightarrow> start_request \<Rightarrow> string \<Rightarrow> info \<Rightarrow> string option \<Rightarrow> string \<Rightarrow> world
     \<Rightarrow> (exn + start_response) \<times> world" where
  "execute_and_respond env request container_id session_info url sid w =
     (case (if truthy (code request)
            then (case run_code env container_id w of
                    (Inl e, w5) \<Rightarrow> (Inl e, w5)
                  | (Inr res, w5) \<Rightarrow> (Inr (Some res), w5))
            else (Inr None, w))
      of
        (Inl e, w5) \<Rightarrow> (Inl e, w5)
      | (Inr result, w5) \<Rightarrow>
          (Inr \<lparr>start_status = ''started'',
                start_container_id = container_id,
                start_container_name = container_name request,
                start_execution_result = result,
                start_session =
                  (if keep_alive request
                   then Some \<lparr>ss_session_id = Some sid,
                              ss_persistent = keep_alive request,
                              ss_ttl_seconds = ttl_seconds session_info,
                              ss_ttyd_url = url\<rparr>
                   else None)\<rparr>,
           if \<not> keep_alive request \<and> result \<noteq> None
           then one_shot_cleanup container_id w5
           else w5))"

text \<open>
  The body of the \<^verbatim>\<open>try\<close> block of \<^verbatim>\<open>container_start\<close>: get the client, run the
  container, build the session record, bring up ttyd if asked, track the record, then
  go on as above.
\<close>

definition container_start_try ::
  "start_env \<Rightarrow> start_request \<Rightarrow> config \<Rightarrow> container_options \<Rightarrow> world
     \<Rightarrow> (exn + start_response) \<times> world" where
  "container_start_try env request cfg options w =
     (case get_docker_client w of
        (False, w1) \<Rightarrow> (Inl (HTTPException 503), w1)
      | (True, w1) \<Rightarrow>
          (case containers_run options (env_new_id env) w1 of
             (Inl e, w2) \<Rightarrow> (Inl e, w2)
           | (Inr full_id, w2) \<Rightarrow>
               (let container_id = take 12 full_id;
                    session_info =
                      \<lparr>name = container_name request, config = cfg,
                       persistent = keep_alive request,
                       ttl_seconds = min (ttl_or_default (req_ttl_seconds request)) MAX_SESSION_TTL,
                       ttyd_port = None, ttyd_enabled = None, ttyd_url = None,
                       session_id = None, started_at = None, last_activity = None\<rparr>;
                    (ts, w3) = (if enable_ttyd request
                                then ttyd_bring_up env container_id session_info w2
                                else ((None, session_info), w2));
                    w4 = track_container (env_now env) (env_uuid4 env) container_id (snd ts) w3
                in case get_container_session container_id w4 of
                     None \<Rightarrow> (Inl AttributeError, w4)
                   | Some tracked \<Rightarrow>
                       (case session_id tracked of
                          None \<Rightarrow> (Inl TypeError, w4)
                        | Some sid \<Rightarrow>
                            execute_and_respond env request container_id (snd ts) (fst ts)
                              sid w4))))"

text \<open>
  \<^verbatim>\<open>container_start\<close>. An exception of the registry lookup, of \<^verbatim>\<open>config.get\<close> on an entry
  that is not a mapping, or of the options leaves the endpoint as it is: these lines stand
  before the \<^verbatim>\<open>try\<close>.
\<close>

definition container_start ::
  "start_env \<Rightarrow> start_request \<Rightarrow> world \<Rightarrow> (exn + start_response) \<times> world" where
  "container_start env request w =
     (case is_container_allowed (container_name request) w of
        Inl e \<Rightarrow> (Inl e, w)
      | Inr False \<Rightarrow> (Inl (HTTPException 403), w)
      | Inr True \<Rightarrow>
          (case get_container_config (container_name request) w of
             Inl e \<Rightarrow> (Inl e, w)
           | Inr None \<Rightarrow> (Inl AttributeError, w)
           | Inr (Some NotAProfile) \<Rightarrow> (Inl AttributeError, w)
           | Inr (Some (Profile cfg)) \<Rightarrow>
               (case build_image_if_needed (container_name request) cfg w of
                  (image_name, w1) \<Rightarrow>
                    (case build_options request cfg image_name of
                       Inl e \<Rightarrow> (Inl e, w1)
                     | Inr options \<Rightarrow>
                         (case container_start_try env request cfg options w1 of
                            (Inr r, w2) \<Rightarrow> (Inr r, w2)
                          | (Inl e, w2) \<Rightarrow>
                              if is_ImageNotFound e then (Inl (HTTPException 404), w2)
                              else (Inl (HTTPException 500), w2))))))"

section \<open>Executing in a container\<close>

record exec_request =
  exec_container_id :: string
  exec_command :: string
  exec_timeout :: "int option"

record exec_response =
  er_container_id :: string
  er_command :: string
  er_exit_code :: int
  er_stdout :: string
  er_stderr :: string

text \<open>The body of the \<^verbatim>\<open>try\<close> block of \<^verbatim>\<open>container_exec\<close>.\<close>

definition container_exec_try ::
  "exec_output \<Rightarrow> exec_request \<Rightarrow> world \<Rightarrow> (exn + exec_response) \<times> world" where
  "container_exec_try out request w =
     (case get_docker_client w of
        (False, w1) \<Rightarrow> (Inl (HTTPException 503), w1)
      | (True, w1) \<Rightarrow>
          (case containers_get (exec_container_id request) w1 of
             (Inl e, w2) \<Rightarrow> (Inl e, w2)
           | (Inr st, w2) \<Rightarrow>
               (case exec_run out (exec_container_id request) w2 of
                  (Inl e, w3) \<Rightarrow> (Inl e, w3)
                | (Inr res, w3) \<Rightarrow>
                    (case decode (out_stream res) of
                       Inl e \<Rightarrow> (Inl e, w3)
                     | Inr stdout \<Rightarrow>
                         (case decode (err_stream res) of
                            Inl e \<Rightarrow> (Inl e, w3)
                          | Inr stderr \<Rightarrow>
                              (Inr \<lparr>er_container_id = exec_container_id request,
                                    er_command = exec_command request,
                                    er_exit_code = exit_code res,
                                    er_stdout = take MAX_OUTPUT_LENGTH stdout,
                                    er_stderr = take MAX_OUTPUT_LENGTH stderr\<rparr>, w3))))))"

text \<open>\<open>now\<close> is the clock as \<^verbatim>\<open>update_container_activity\<close> reads it.\<close>

definition container_exec ::
  "int \<Rightarrow> exec_output \<Rightarrow> exec_request \<Rightarrow> world \<Rightarrow> (exn + exec_response) \<times> world" where
  "container_exec now out request w =
     (if \<not> is_container_tracked (exec_container_id request) w
      then (Inl (HTTPException 404), w)
      else
        (case update_container_activity now (exec_container_id request) w of
           (touched, w1) \<Rightarrow>
             (case container_exec_try out request w1 of
                (Inr r, w2) \<Rightarrow> (Inr r, w2)
              | (Inl e, w2) \<Rightarrow>
                  if NotFound_in_type_name e
                  then (Inl (HTTPException 404),
                        snd (untrack_container (exec_container_id request) w2))
                  else (Inl (HTTPException 500), w2))))"

section \<open>Dates and durations\<close>

text \<open>
  \<^verbatim>\<open>timedelta(seconds=s)\<close> normalises to days, seconds and microseconds and raises
  \<^verbatim>\<open>OverflowError\<close> when the days exceed 999999999 in magnitude. A duration is its number
  of microseconds.
\<close>

definition timedelta_of_seconds :: "int \<Rightarrow> exn + int" where
  "timedelta_of_seconds s =
     (if \<bar>s div 86400\<bar> > 999999999 then Inl OverflowError else Inr (s * 1000000))"

text \<open>The attribute \<^verbatim>\<open>.seconds\<close> of a duration: the seconds within its day, \<open>0 .. 86399\<close>.\<close>

definition td_seconds :: "int \<Rightarrow> int" where
  "td_seconds d = (d mod (86400 * 1000000)) div 1000000"

text \<open>\<^verbatim>\<open>datetime.max\<close>, 9999-12-31 23:59:59.999999, counted from \<^verbatim>\<open>datetime.min\<close>.\<close>

definition datetime_max :: int where
  "datetime_max = 3652059 * 86400 * 1000000 - 1"

text \<open>\<^verbatim>\<open>datetime + timedelta\<close> raises \<^verbatim>\<open>OverflowError\<close> outside the range of dates.\<close>

definition datetime_add :: "int \<Rightarrow> int \<Rightarrow> exn + int" where
  "datetime_add t d =
     (if t + d < 0 \<or> datetime_max < t + d then Inl OverflowError else Inr (t + d))"

text \<open>\<^verbatim>\<open>info.get("last_activity", info.get("started_at"))\<close>.\<close>

definition last_activity_of :: "info \<Rightarrow> int option" where
  "last_activity_of i = (case last_activity i of Some t \<Rightarrow> Some t | None \<Rightarrow> started_at i)"

section \<open>The reaper\<close>

text \<open>\<^verbatim>\<open>expires_at = last_activity + timedelta(seconds=ttl)\<close>.\<close>

definition expires_at :: "info \<Rightarrow> exn + int" where
  "expires_at i =
     (case timedelta_of_seconds (ttl_seconds i) of
        Inl e \<Rightarrow> Inl e
      | Inr d \<Rightarrow>
          (case last_activity_of i of
             None \<Rightarrow> Inl TypeError
           | Some la \<Rightarrow> datetime_add la d))"

text \<open>
  Stop and remove a container, dropping every exception (the bare \<^verbatim>\<open>except: pass\<close> that
  the reaper and \<^verbatim>\<open>close_session\<close> share).
\<close>

definition stop_and_remove_quietly :: "string \<Rightarrow> world \<Rightarrow> world" where
  "stop_and_remove_quietly container_id w =
     (case containers_get container_id w of
        (Inl e, w1) \<Rightarrow> w1
      | (Inr st, w1) \<Rightarrow>
          (case sdk_stop container_id w1 of
             (Inl e, w2) \<Rightarrow> w2
           | (Inr u, w2) \<Rightarrow> snd (sdk_remove container_id w2)))"

text \<open>The \<^verbatim>\<open>for\<close> loop of \<^verbatim>\<open>cleanup_expired_sessions\<close> over the snapshot of the table.\<close>

fun cleanup_loop :: "int \<Rightarrow> (string \<times> info) list \<Rightarrow> world \<Rightarrow> (exn + unit) \<times> world" where
  "cleanup_loop now [] w = (Inr (), w)"
| "cleanup_loop now ((container_id, i) # rest) w =
     (if \<not> persistent i then cleanup_loop now rest w
      else
        (case expires_at i of
           Inl e \<Rightarrow> (Inl e, w)
         | Inr ex \<Rightarrow>
             if now > ex
             then cleanup_loop now rest
                    (snd (untrack_container container_id
                            (stop_and_remove_quietly container_id w)))
             else cleanup_loop now rest w))"

definition cleanup_expired_sessions :: "int \<Rightarrow> world \<Rightarrow> (exn + unit) \<times> world" where
  "cleanup_expired_sessions now w =
     (case get_docker_client w of
        (False, w1) \<Rightarrow> (Inr (), w1)
      | (True, w1) \<Rightarrow> cleanup_loop now (get_tracked_containers w1) w1)"

text \<open>
  \<^verbatim>\<open>session_cleanup_loop\<close> until it is cancelled: one pass per clock reading of the list,
  each after a sleep of \<^verbatim>\<open>CLEANUP_INTERVAL\<close>; an exception of a pass is logged and the loop
  goes on.
\<close>

fun session_cleanup_loop :: "int list \<Rightarrow> world \<Rightarrow> world" where
  "session_cleanup_loop [] w = w"
| "session_cleanup_loop (now # later) w =
     session_cleanup_loop later (snd (cleanup_expired_sessions now w))"

section \<open>Status and sessions\<close>

text \<open>
  \<^verbatim>\<open>remaining = ttl - (datetime.now() - last_activity_dt).seconds\<close>, reported as
  \<^verbatim>\<open>max(0, remaining)\<close>; the same lines stand in \<^verbatim>\<open>container_status\<close>,
  \<^verbatim>\<open>list_sessions\<close> and \<^verbatim>\<open>get_session\<close>. \<open>now\<close> is the clock at that line.
\<close>

definition remaining_seconds :: "int \<Rightarrow> info \<Rightarrow> exn + int" where
  "remaining_seconds now i =
     (case last_activity_of i of
        None \<Rightarrow> Inl TypeError
      | Some la \<Rightarrow> Inr (max 0 (ttl_seconds i - td_seconds (now - la))))"

record status_session =
  st_session_id :: "string option"
  st_ttl_seconds :: int
  st_remaining_seconds :: int

record status_entry =
  se_container_id :: string
  se_name :: string
  se_status :: string
  se_started_at :: "int option"
  se_persistent :: bool
  se_session :: "status_session option"

record status_response =
  active_list :: "status_entry list"
  active_count :: nat
  status_error :: "string option"

text \<open>
  The loop of \<^verbatim>\<open>container_status\<close>: only \<^verbatim>\<open>NotFound\<close> is caught (the record is
  untracked and left out); any other exception leaves the endpoint.
\<close>

fun status_loop ::
  "int \<Rightarrow> (string \<times> info) list \<Rightarrow> world \<Rightarrow> (exn + status_entry list) \<times> world" where
  "status_loop now [] w = (Inr [], w)"
| "status_loop now ((container_id, i) # rest) w =
     (case containers_get container_id w of
        (Inl e, w1) \<Rightarrow>
          if is_NotFound e
          then status_loop now rest (snd (untrack_container container_id w1))
          else (Inl e, w1)
      | (Inr st, w1) \<Rightarrow>
          (case (if persistent i
                 then (case remaining_seconds now i of
                         Inl e \<Rightarrow> Inl e
                       | Inr r \<Rightarrow>
                           Inr (Some \<lparr>st_session_id = session_id i,
                                      st_ttl_seconds = ttl_seconds i,
                                      st_remaining_seconds = r\<rparr>))
                 else Inr None)
           of
             Inl e \<Rightarrow> (Inl e, w1)
           | Inr session_info \<Rightarrow>
               (case status_loop now rest w1 of
                  (Inl e, w2) \<Rightarrow> (Inl e, w2)
                | (Inr entries, w2) \<Rightarrow>
                    (Inr (\<lparr>se_container_id = container_id, se_name = name i,
                           se_status = st, se_started_at = started_at i,
                           se_persistent = persistent i,
                           se_session = session_info\<rparr> # entries), w2))))"

definition container_status :: "int \<Rightarrow> world \<Rightarrow> (exn + status_response) \<times> world" where
  "container_status now w =
     (case get_docker_client w of
        (False, w1) \<Rightarrow>
          (Inr \<lparr>active_list = [], active_count = 0,
                status_error = Some ''Docker not available''\<rparr>, w1)
      | (True, w1) \<Rightarrow>
          (case status_loop now (get_tracked_containers w1) w1 of
             (Inl e, w2) \<Rightarrow> (Inl e, w2)
           | (Inr entries, w2) \<Rightarrow>
               (Inr \<lparr>active_list = entries, active_count = length entries,
                     status_error = None\<rparr>, w2)))"

record session_entry =
  sn_session_id :: "string option"
  sn_container_id :: string
  sn_name :: string
  sn_started_at :: "int option"
  sn_last_activity :: "int option"
  sn_ttl_seconds :: int
  sn_remaining_seconds :: int
  sn_ttyd_enabled :: bool

definition session_entry_of :: "string \<Rightarrow> info \<Rightarrow> int \<Rightarrow> session_entry" where
  "session_entry_of container_id i remaining =
     \<lparr>sn_session_id = session_id i, sn_container_id = container_id, sn_name = name i,
      sn_started_at = started_at i, sn_last_activity = last_activity i,
      sn_ttl_seconds = ttl_seconds i, sn_remaining_seconds = remaining,
      sn_ttyd_enabled = (case ttyd_enabled i of None \<Rightarrow> False | Some b \<Rightarrow> b)\<rparr>"

fun sessions_loop :: "int \<Rightarrow> (string \<times> info) list \<Rightarrow> exn + session_entry list" where
  "sessions_loop now [] = Inr []"
| "sessions_loop now ((container_id, i) # rest) =
     (if persistent i then
        (case remaining_seconds now i of
           Inl e \<Rightarrow> Inl e
         | Inr r \<Rightarrow>
             (case sessions_loop now rest of
                Inl e \<Rightarrow> Inl e
              | Inr sessions \<Rightarrow> Inr (session_entry_of container_id i r # sessions)))
      else sessions_loop now rest)"

definition list_sessions :: "int \<Rightarrow> world \<Rightarrow> exn + session_entry list \<times> nat" where
  "list_sessions now w =
     (case sessions_loop now (get_tracked_containers w) of
        Inl e \<Rightarrow> Inl e
      | Inr sessions \<Rightarrow> Inr (sessions, length sessions))"

text \<open>\<^verbatim>\<open>get_session\<close>: the first record of the snapshot with that session id, with its profile.\<close>

fun get_session_loop ::
  "int \<Rightarrow> string \<Rightarrow> (string \<times> info) list \<Rightarrow> exn + session_entry \<times> config" where
  "get_session_loop now sid [] = Inl (HTTPException 404)"
| "get_session_loop now sid ((container_id, i) # rest) =
     (if session_id i = Some sid then
        (case remaining_seconds now i of
           Inl e \<Rightarrow> Inl e
         | Inr r \<Rightarrow> Inr ((session_entry_of container_id i r)\<lparr>sn_session_id := Some sid\<rparr>,
                          config i))
      else get_session_loop now sid rest)"

definition get_session :: "int \<Rightarrow> string \<Rightarrow> world \<Rightarrow> exn + session_entry \<times> config" where
  "get_session now sid w = get_session_loop now sid (get_tracked_containers w)"

section \<open>Extending and closing a session\<close>

record extend_response =
  ex_session_id :: string
  ex_extended_by :: int
  ex_new_ttl :: int

text \<open>
  The loop of \<^verbatim>\<open>extend_session\<close> over the table itself, under the lock: the first record
  with the session id is changed in place and the loop returns; \<open>None\<close> when the loop
  ends without a match.
\<close>

fun extend_loop ::
  "int \<Rightarrow> string \<Rightarrow> int \<Rightarrow> (string \<times> info) list \<Rightarrow> (int \<times> (string \<times> info) list) option" where
  "extend_loop now sid extend_seconds [] = None"
| "extend_loop now sid extend_seconds ((container_id, i) # rest) =
     (if session_id i = Some sid then
        (let new_ttl = min (ttl_seconds i + extend_seconds) MAX_SESSION_TTL
         in Some (new_ttl,
                  (container_id, i\<lparr>last_activity := Some now, ttl_seconds := new_ttl\<rparr>) # rest))
      else
        (case extend_loop now sid extend_seconds rest of
           None \<Rightarrow> None
         | Some (new_ttl, rest') \<Rightarrow> Some (new_ttl, (container_id, i) # rest')))"

definition extend_session ::
  "int \<Rightarrow> string \<Rightarrow> int \<Rightarrow> world \<Rightarrow> (exn + extend_response) \<times> world" where
  "extend_session now sid extend_seconds w =
     (case extend_loop now sid extend_seconds (active_containers w) of
        Some (new_ttl, table) \<Rightarrow>
          (Inr \<lparr>ex_session_id = sid, ex_extended_by = extend_seconds, ex_new_ttl = new_ttl\<rparr>,
           w\<lparr>active_containers := table\<rparr>)
      | None \<Rightarrow> (Inl (HTTPException 404), w))"

record close_response =
  cl_session_id :: string
  cl_container_id :: string
  cl_status :: string

fun close_loop ::
  "bool \<Rightarrow> string \<Rightarrow> (string \<times> info) list \<Rightarrow> world \<Rightarrow> (exn + close_response) \<times> world" where
  "close_loop client sid [] w = (Inl (HTTPException 404), w)"
| "close_loop client sid ((container_id, i) # rest) w =
     (if session_id i = Some sid then
        (let w1 = (if client then stop_and_remove_quietly container_id w else w)
         in (Inr \<lparr>cl_session_id = sid, cl_container_id = container_id, cl_status = ''closed''\<rparr>,
             snd (untrack_container container_id w1)))
      else close_loop client sid rest w)"

definition close_session :: "string \<Rightarrow> world \<Rightarrow> (exn + close_response) \<times> world" where
  "close_session sid w =
     (case get_docker_client w of
        (client, w1) \<Rightarrow> close_loop client sid (get_tracked_containers w1) w1)"

section \<open>Stopping everything\<close>

text \<open>
  The loop of \<^verbatim>\<open>container_cleanup\<close>: an exception of get, stop or remove is logged, and
  the record is untracked in either case.
\<close>

fun cleanup_all_loop :: "string list \<Rightarrow> world \<Rightarrow> string list \<times> world" where
  "cleanup_all_loop [] w = ([], w)"
| "cleanup_all_loop (container_id # rest) w =
     (let (ok, w3) =
            (case containers_get container_id w of
               (Inl e, w1) \<Rightarrow> (False, w1)
             | (Inr st, w1) \<Rightarrow>
                 (case sdk_stop container_id w1 of
                    (Inl e, w2) \<Rightarrow> (False, w2)
                  | (Inr u, w2) \<Rightarrow>
                      (case sdk_remove container_id w2 of
                         (Inl e, w3) \<Rightarrow> (False, w3)
                       | (Inr u, w3) \<Rightarrow> (True, w3))));
          (stopped, w4) = cleanup_all_loop rest (snd (untrack_container container_id w3))
      in (if ok then container_id # stopped else stopped, w4))"

record cleanup_response =
  cu_stopped :: "string list"
  cu_count :: nat
  cu_cleared_tracking :: "nat option"

definition container_cleanup :: "world \<Rightarrow> cleanup_response \<times> world" where
  "container_cleanup w =
     (case get_docker_client w of
        (False, w1) \<Rightarrow>
          (\<lparr>cu_stopped = [], cu_count = 0,
            cu_cleared_tracking = Some (length (active_containers w1))\<rparr>,
           w1\<lparr>active_containers := []\<rparr>)
      | (True, w1) \<Rightarrow>
          (case cleanup_all_loop (map fst (get_tracked_containers w1)) w1 of
             (stopped, w2) \<Rightarrow>
               (\<lparr>cu_stopped = stopped, cu_count = length stopped,
                 cu_cleared_tracking = None\<rparr>, w2)))"

section \<open>Auxiliary notions and sample data\<close>

text \<open>The daemon answers every coming call of one kind in the normal way.\<close>

definition raises_nothing :: "engine_op \<Rightarrow> world \<Rightarrow> bool" where
  "raises_nothing op w \<longleftrightarrow> list_all (\<lambda>r. r = None) (faults w op)"

text \<open>The engine client has been initialised: \<^verbatim>\<open>get_docker_client\<close> returns it.\<close>

definition client_ready :: "world \<Rightarrow> bool" where
  "client_ready w \<longleftrightarrow> docker_client w \<and> docker_available w \<noteq> Some False"

text \<open>A registry with one profile, and a world with one live persistent session.\<close>

definition python_sandbox :: config where
  "python_sandbox =
     \<lparr>image = Some ''python-sandbox:latest'', build_context = None, network_mode = None,
      read_only = True, memory = Some ''512m'', cpus = CpuQuota 50000\<rparr>"

definition demo_session :: info where
  "demo_session =
     \<lparr>name = ''python-sandbox'', config = python_sandbox, persistent = True,
      ttl_seconds = 120, ttyd_port = None, ttyd_enabled = None, ttyd_url = None,
      session_id = Some ''5f2b'', started_at = Some 1000000, last_activity = Some 1000000\<rparr>"

definition demo_world :: world where
  "demo_world =
     \<lparr>registry = Some (Mapping (Containers [(''python-sandbox'', Some (Profile python_sandbox))])),
      active_containers = [(''0123456789ab'', demo_session)],
      docker_client = True, docker_available = Some True,
      engine = [(''0123456789ab'', ''running'')],
      faults = (\<lambda>op. [])\<rparr>"

definition demo_output :: exec_output where
  "demo_output = \<lparr>exit_code = 0, out_stream = Decodes ''4'', err_stream = Absent\<rparr>"

definition demo_exec_request :: exec_request where
  "demo_exec_request =
     \<lparr>exec_container_id = ''0123456789ab'', exec_command = ''expr 2 + 2'', exec_timeout = Some 30\<rparr>"

definition demo_start_env :: start_env where
  "demo_start_env =
     \<lparr>env_now = 1000000, env_uuid4 = ''5f2b'', env_new_id = ''0123456789abcdef'',
      env_port_info = None, env_code_output = demo_output\<rparr>"

definition demo_start_request :: start_request where
  "demo_start_request =
     \<lparr>container_name = ''python-sandbox'', code = Some ''print(2+2)'', command = None,
      timeout = Some 60, keep_alive = False, req_ttl_seconds = Some 300, enable_ttyd = False\<rparr>"

definition idle_world :: world where
  "idle_world = demo_world\<lparr>active_containers := [], engine := []\<rparr>"

text \<open>
  The ids a pass of \<^verbatim>\<open>cleanup_expired_sessions\<close> over a snapshot untracks: those of
  the expired persistent records that the loop reaches before an exception ends it.
\<close>

fun reaped :: "int \<Rightarrow> (string \<times> info) list \<Rightarrow> string list" where
  "reaped now [] = []"
| "reaped now ((container_id, i) # rest) =
     (if \<not> persistent i then reaped now rest
      else
        (case expires_at i of
           Inl e \<Rightarrow> []
         | Inr ex \<Rightarrow> if now > ex then container_id # reaped now rest else reaped now rest))"

section \<open>Properties\<close>

subsection \<open>Frame lemmas\<close>

lemma pop_fault_frame [simp]:
  "active_containers (snd (pop_fault op w)) = active_containers w"
  "engine (snd (pop_fault op w)) = engine w"
  "docker_client (snd (pop_fault op w)) = docker_client w"
  "docker_available (snd (pop_fault op w)) = docker_available w"
  "registry (snd (pop_fault op w)) = registry w"
  by (simp_all add: pop_fault_def split: list.splits)

lemma untrack_table [simp]:
  "active_containers (snd (untrack_container c w)) = AList.delete c (active_containers w)"
  by (simp add: untrack_container_def map_of_eq_None_iff)

lemma untrack_frame [simp]:
  "engine (snd (untrack_container c w)) = engine w"
  "docker_client (snd (untrack_container c w)) = docker_client w"
  "docker_available (snd (untrack_container c w)) = docker_available w"
  "registry (snd (untrack_container c w)) = registry w"
  "faults (snd (untrack_container c w)) = faults w"
  by (simp_all add: untrack_container_def)

lemma get_docker_client_frame [simp]:
  "active_containers (snd (get_docker_client w)) = active_containers w"
  "engine (snd (get_docker_client w)) = engine w"
  "registry (snd (get_docker_client w)) = registry w"
  by (simp_all add: get_docker_client_def split_def split: option.splits)


lemma containers_get_frame [simp]:
  "active_containers (snd (containers_get c w)) = active_containers w"
  "engine (snd (containers_get c w)) = engine w"
  "docker_client (snd (containers_get c w)) = docker_client w"
  "docker_available (snd (containers_get c w)) = docker_available w"
  "registry (snd (containers_get c w)) = registry w"
  by (simp_all add: containers_get_def split_def split: option.splits)

lemma sdk_stop_frame [simp]:
  "active_containers (snd (sdk_stop c w)) = active_containers w"
  "docker_client (snd (sdk_stop c w)) = docker_client w"
  "docker_available (snd (sdk_stop c w)) = docker_available w"
  "registry (snd (sdk_stop c w)) = registry w"
  by (simp_all add: sdk_stop_def split_def split: option.splits)

lemma sdk_remove_frame [simp]:
  "active_containers (snd (sdk_remove c w)) = active_containers w"
  "docker_client (snd (sdk_remove c w)) = docker_client w"
  "docker_available (snd (sdk_remove c w)) = docker_available w"
  "registry (snd (sdk_remove c w)) = registry w"
  by (simp_all add: sdk_remove_def split_def split: option.splits)

lemma sdk_call_frame [simp]:
  "active_containers (snd (sdk_call op c w)) = active_containers w"
  "engine (snd (sdk_call op c w)) = engine w"
  "docker_client (snd (sdk_call op c w)) = docker_client w"
  "docker_available (snd (sdk_call op c w)) = docker_available w"
  "registry (snd (sdk_call op c w)) = registry w"
  by (simp_all add: sdk_call_def split_def split: option.splits)

lemma exec_run_frame [simp]:
  "active_containers (snd (exec_run out c w)) = active_containers w"
  "engine (snd (exec_run out c w)) = engine w"
  "docker_client (snd (exec_run out c w)) = docker_client w"
  "docker_available (snd (exec_run out c w)) = docker_available w"
  "registry (snd (exec_run out c w)) = registry w"
  by (simp_all add: exec_run_def split_def split: option.splits)

lemma containers_run_frame [simp]:
  "active_containers (snd (containers_run opts n w)) = active_containers w"
  "docker_client (snd (containers_run opts n w)) = docker_client w"
  "docker_available (snd (containers_run opts n w)) = docker_available w"
  "registry (snd (containers_run opts n w)) = registry w"
  by (simp_all add: containers_run_def split_def split: option.splits)

lemma map_of_delete_same [simp]: "map_of (AList.delete k al) k = None"
  by (simp add: AList.delete_conv)

subsection \<open>Stopping a container\<close>

lemma container_stop_try_table:
  "active_containers (snd (container_stop_try c w)) =
     (case fst (container_stop_try c w) of Inl e \<Rightarrow> active_containers w
      | Inr r \<Rightarrow> AList.delete c (active_containers w))"
  by (simp add: container_stop_try_def split_def split: sum.splits)

lemma container_stop_try_status:
  "fst (container_stop_try c w) = Inr r \<Longrightarrow> r = \<lparr>stop_status = ''stopped'', stop_container_id = c\<rparr>"
  by (auto simp add: container_stop_try_def split_def split: sum.splits if_splits)

lemma container_stop_untracks:
  "map_of (active_containers (snd (container_stop c w))) c = None"
  by (simp add: container_stop_def split_def container_stop_try_table split: sum.splits bool.splits)

lemma container_stop_returns:
  "\<exists>r. fst (container_stop c w) = Inr r \<and> stop_container_id r = c \<and>
       stop_status r \<in> {''stopped'', ''already_stopped'', ''error_but_cleaned'', ''no_docker''}"
  by (auto simp add: container_stop_def split_def split: sum.splits bool.splits dest: container_stop_try_status)


lemma pop_fault_quiet:
  "raises_nothing op w \<Longrightarrow> fst (pop_fault op w) = None"
  by (auto simp add: raises_nothing_def pop_fault_def split: list.splits)

lemma pop_fault_keeps_quiet [simp]:
  "raises_nothing op' w \<Longrightarrow> raises_nothing op' (snd (pop_fault op w))"
  by (auto simp add: raises_nothing_def pop_fault_def split: list.splits)

lemma raises_nothing_upd [simp]:
  "raises_nothing op (w\<lparr>engine := e\<rparr>) = raises_nothing op w"
  "raises_nothing op (w\<lparr>active_containers := t\<rparr>) = raises_nothing op w"
  "raises_nothing op (w\<lparr>docker_client := c\<rparr>) = raises_nothing op w"
  "raises_nothing op (w\<lparr>docker_available := a\<rparr>) = raises_nothing op w"
  by (simp_all add: raises_nothing_def)

lemma client_ready_upd [simp]:
  "client_ready (w\<lparr>engine := e\<rparr>) = client_ready w"
  "client_ready (w\<lparr>active_containers := t\<rparr>) = client_ready w"
  "client_ready (w\<lparr>faults := f\<rparr>) = client_ready w"
  by (simp_all add: client_ready_def)

lemma client_ready_pop [simp]: "client_ready (snd (pop_fault op w)) = client_ready w"
  by (simp add: client_ready_def)

lemma get_docker_client_ready:
  "client_ready w \<Longrightarrow> get_docker_client w = (True, w)"
  by (simp add: client_ready_def get_docker_client_def)

lemma get_docker_client_True:
  "fst (get_docker_client w) \<Longrightarrow> client_ready (snd (get_docker_client w))"
  by (auto simp add: client_ready_def get_docker_client_def split_def split: option.splits if_splits)

lemma get_docker_client_False:
  "\<not> fst (get_docker_client w) \<Longrightarrow> docker_available (snd (get_docker_client w)) = Some False"
  by (auto simp add: get_docker_client_def split_def split: option.splits if_splits)

lemma get_docker_client_quiet [simp]:
  "raises_nothing op w \<Longrightarrow> raises_nothing op (snd (get_docker_client w))"
  by (auto simp add: get_docker_client_def split_def split: option.splits if_splits)

lemma untrack_quiet [simp]:
  "raises_nothing op (snd (untrack_container c w)) = raises_nothing op w"
  "client_ready (snd (untrack_container c w)) = client_ready w"
  by (simp_all add: untrack_container_def)

lemma sdk_quiet [simp]:
  "raises_nothing op w \<Longrightarrow> raises_nothing op (snd (containers_get c w))"
  "raises_nothing op w \<Longrightarrow> raises_nothing op (snd (sdk_stop c w))"
  "raises_nothing op w \<Longrightarrow> raises_nothing op (snd (sdk_remove c w))"
  "raises_nothing op w \<Longrightarrow> raises_nothing op (snd (sdk_call op' c w))"
  "raises_nothing op w \<Longrightarrow> raises_nothing op (snd (exec_run out c w))"
  "raises_nothing op w \<Longrightarrow> raises_nothing op (snd (containers_run opts n w))"
  by (simp_all add: containers_get_def sdk_stop_def sdk_remove_def sdk_call_def exec_run_def
      containers_run_def split_def split: option.splits)

lemma sdk_ready [simp]:
  "client_ready (snd (containers_get c w)) = client_ready w"
  "client_ready (snd (sdk_stop c w)) = client_ready w"
  "client_ready (snd (sdk_remove c w)) = client_ready w"
  "client_ready (snd (sdk_call op' c w)) = client_ready w"
  "client_ready (snd (exec_run out c w)) = client_ready w"
  "client_ready (snd (containers_run opts n w)) = client_ready w"
  by (simp_all add: client_ready_def)

lemma containers_get_quiet:
  "raises_nothing Get w \<Longrightarrow>
   fst (containers_get c w) = (case map_of (engine w) c of None \<Rightarrow> Inl NotFound | Some st \<Rightarrow> Inr st)"
  by (simp add: containers_get_def split_def pop_fault_quiet split: option.splits)

lemma sdk_stop_quiet:
  "raises_nothing Stop w \<Longrightarrow> map_of (engine w) c = Some st \<Longrightarrow>
   fst (sdk_stop c w) = Inr () \<and> map_of (engine (snd (sdk_stop c w))) c = Some ''exited''"
  by (simp add: sdk_stop_def split_def pop_fault_quiet AList.update_conv')

lemma sdk_remove_quiet:
  "raises_nothing Remove w \<Longrightarrow> map_of (engine w) c = Some st \<Longrightarrow> st \<noteq> ''running'' \<Longrightarrow>
   fst (sdk_remove c w) = Inr () \<and> map_of (engine (snd (sdk_remove c w))) c = None"
  by (simp add: sdk_remove_def split_def pop_fault_quiet)

lemma container_stop_try_quiet:
  assumes "raises_nothing Get w" "raises_nothing Stop w" "raises_nothing Remove w"
  shows "map_of (engine (snd (container_stop_try c w))) c = None \<and>
         fst (container_stop_try c w) =
           (case map_of (engine w) c of None \<Rightarrow> Inl NotFound
            | Some st \<Rightarrow> Inr \<lparr>stop_status = ''stopped'', stop_container_id = c\<rparr>)"
proof (cases "map_of (engine w) c")
  case None
  then show ?thesis using assms
    by (simp add: container_stop_try_def split_def containers_get_quiet)
next
  case (Some st)
  let ?w1 = "snd (containers_get c w)"
  have g: "fst (containers_get c w) = Inr st" using Some assms by (simp add: containers_get_quiet)
  have e1: "map_of (engine ?w1) c = Some st" using Some by simp
  show ?thesis
  proof (cases "st = ''exited'' \<or> st = ''dead''")
    case True
    then have "st \<noteq> ''running''" by auto
    with sdk_remove_quiet[of ?w1 c st] e1 assms True g Some show ?thesis
      by (simp add: container_stop_try_def split_def)
  next
    case False
    let ?w2 = "snd (sdk_stop c ?w1)"
    have s: "fst (sdk_stop c ?w1) = Inr ()" "map_of (engine ?w2) c = Some ''exited''"
      using sdk_stop_quiet[of ?w1 c st] e1 assms by simp_all
    have r: "fst (sdk_remove c ?w2) = Inr ()" "map_of (engine (snd (sdk_remove c ?w2))) c = None"
      using sdk_remove_quiet[of ?w2 c "''exited''"] s assms by simp_all
    show ?thesis using False g s r Some
      by (simp add: container_stop_try_def split_def)
  qed
qed


lemma container_stop_quiet:
  assumes "fst (get_docker_client w)"
    and "raises_nothing Get w" "raises_nothing Stop w" "raises_nothing Remove w"
  shows "map_of (engine (snd (container_stop c w))) c = None"
    and "fst (container_stop c w) =
           Inr \<lparr>stop_status = (case map_of (engine w) c of None \<Rightarrow> ''already_stopped''
                                | Some st \<Rightarrow> ''stopped''),
                stop_container_id = c\<rparr>"
    and "client_ready (snd (container_stop c w))"
    and "raises_nothing op w \<Longrightarrow> raises_nothing op (snd (container_stop c w))"
proof -
  let ?w1 = "snd (get_docker_client w)"
  have q: "raises_nothing Get ?w1" "raises_nothing Stop ?w1" "raises_nothing Remove ?w1"
    using assms by simp_all
  note t = container_stop_try_quiet[OF q, of c]
  have rdy: "client_ready ?w1" using assms(1) by (rule get_docker_client_True)
  show "map_of (engine (snd (container_stop c w))) c = None"
    using assms(1) t by (simp add: container_stop_def split_def split: sum.splits)
  show "fst (container_stop c w) =
           Inr \<lparr>stop_status = (case map_of (engine w) c of None \<Rightarrow> ''already_stopped''
                                | Some st \<Rightarrow> ''stopped''),
                stop_container_id = c\<rparr>"
    using assms(1) t by (auto simp add: container_stop_def split_def split: sum.splits option.splits)
  have "client_ready (snd (container_stop_try c ?w1))"
    using rdy by (simp add: container_stop_try_def split_def split: sum.splits)
  then show "client_ready (snd (container_stop c w))"
    using assms(1) by (simp add: container_stop_def split_def split: sum.splits)
  assume "raises_nothing op w"
  then have "raises_nothing op ?w1" by simp
  then have "raises_nothing op (snd (container_stop_try c ?w1))"
    by (simp add: container_stop_try_def split_def split: sum.splits)
  then show "raises_nothing op (snd (container_stop c w))"
    using assms(1) by (simp add: container_stop_def split_def split: sum.splits)
qed

text \<open>
  Claim C2 (as amended). \<^verbatim>\<open>container_stop\<close> never raises: whatever the daemon answers
  it returns one of \<^verbatim>\<open>stopped\<close>, \<^verbatim>\<open>already_stopped\<close>, \<^verbatim>\<open>error_but_cleaned\<close>,
  \<^verbatim>\<open>no_docker\<close>, and on return the table has no record for the id. A second stop of the
  same id does the same; it returns \<^verbatim>\<open>already_stopped\<close> when the client is available
  and no get, stop or remove raises.
\<close>

theorem container_stop_absorbs:
  "(\<exists>r. fst (container_stop cid w) = Inr r \<and> stop_container_id r = cid \<and>
        stop_status r \<in> {''stopped'', ''already_stopped'', ''error_but_cleaned'', ''no_docker''})
   \<and> map_of (active_containers (snd (container_stop cid w))) cid = None
   \<and> (\<exists>r. fst (container_stop cid (snd (container_stop cid w))) = Inr r \<and>
        stop_container_id r = cid \<and>
        stop_status r \<in> {''stopped'', ''already_stopped'', ''error_but_cleaned'', ''no_docker''})
   \<and> map_of (active_containers (snd (container_stop cid (snd (container_stop cid w))))) cid = None
   \<and> (fst (get_docker_client w) \<and> raises_nothing Get w \<and> raises_nothing Stop w \<and>
        raises_nothing Remove w \<longrightarrow>
        fst (container_stop cid (snd (container_stop cid w))) =
          Inr \<lparr>stop_status = ''already_stopped'', stop_container_id = cid\<rparr>)"
proof (intro conjI impI)
  show "\<exists>r. fst (container_stop cid w) = Inr r \<and> stop_container_id r = cid \<and>
        stop_status r \<in> {''stopped'', ''already_stopped'', ''error_but_cleaned'', ''no_docker''}"
    by (rule container_stop_returns)
  show "map_of (active_containers (snd (container_stop cid w))) cid = None"
    by (rule container_stop_untracks)
  show "\<exists>r. fst (container_stop cid (snd (container_stop cid w))) = Inr r \<and>
        stop_container_id r = cid \<and>
        stop_status r \<in> {''stopped'', ''already_stopped'', ''error_but_cleaned'', ''no_docker''}"
    by (rule container_stop_returns)
  show "map_of (active_containers (snd (container_stop cid (snd (container_stop cid w))))) cid = None"
    by (rule container_stop_untracks)
next
  assume a: "fst (get_docker_client w) \<and> raises_nothing Get w \<and> raises_nothing Stop w \<and>
        raises_nothing Remove w"
  let ?w1 = "snd (container_stop cid w)"
  have gone: "map_of (engine ?w1) cid = None" using a by (simp add: container_stop_quiet(1))
  have rdy: "client_ready ?w1" using a by (simp add: container_stop_quiet(3))
  have q: "raises_nothing Get ?w1" "raises_nothing Stop ?w1" "raises_nothing Remove ?w1"
    using a by (simp_all add: container_stop_quiet(4))
  have "fst (get_docker_client ?w1)" using rdy by (simp add: get_docker_client_ready)
  from container_stop_quiet(2)[OF this q, of cid] gone
  show "fst (container_stop cid ?w1) =
          Inr \<lparr>stop_status = ''already_stopped'', stop_container_id = cid\<rparr>"
    by simp
qed

lemma demo_world_simps [simp]:
  "registry demo_world =
     Some (Mapping (Containers [(''python-sandbox'', Some (Profile python_sandbox))]))"
  "active_containers demo_world = [(''0123456789ab'', demo_session)]"
  "docker_client demo_world" "docker_available demo_world = Some True"
  "engine demo_world = [(''0123456789ab'', ''running'')]"
  "faults demo_world = (\<lambda>op. [])"
  by (simp_all add: demo_world_def)

theorem container_stop_absorbs_witness:
  "fst (container_stop ''0123456789ab'' demo_world) =
     Inr \<lparr>stop_status = ''stopped'', stop_container_id = ''0123456789ab''\<rparr>
   \<and> fst (container_stop ''0123456789ab'' (snd (container_stop ''0123456789ab'' demo_world))) =
     Inr \<lparr>stop_status = ''already_stopped'', stop_container_id = ''0123456789ab''\<rparr>
   \<and> map_of (active_containers (snd (container_stop ''0123456789ab'' demo_world))) ''0123456789ab'' = None"
proof -
  have h: "fst (get_docker_client demo_world) \<and> raises_nothing Get demo_world \<and>
           raises_nothing Stop demo_world \<and> raises_nothing Remove demo_world"
    by (simp add: get_docker_client_def raises_nothing_def)
  have f: "fst (container_stop ''0123456789ab'' demo_world) =
     Inr \<lparr>stop_status = ''stopped'', stop_container_id = ''0123456789ab''\<rparr>"
    by (simp add: container_stop_def get_docker_client_def container_stop_try_def
        containers_get_def sdk_stop_def sdk_remove_def pop_fault_def untrack_container_def)
  show ?thesis
    using container_stop_absorbs[of "''0123456789ab''" demo_world] h f by blast
qed

text \<open>
  The claim as stated fails: when the daemon refuses the first stop with an API error the
  container is still running, and the second stop returns \<^verbatim>\<open>stopped\<close>.
\<close>

theorem second_stop_not_already_stopped:
  "fst (container_stop ''0123456789ab'' (demo_world\<lparr>faults := (\<lambda>op. [])(Stop := [Some APIError])\<rparr>)) =
     Inr \<lparr>stop_status = ''error_but_cleaned'', stop_container_id = ''0123456789ab''\<rparr>
   \<and> fst (container_stop ''0123456789ab''
           (snd (container_stop ''0123456789ab''
                   (demo_world\<lparr>faults := (\<lambda>op. [])(Stop := [Some APIError])\<rparr>)))) =
     Inr \<lparr>stop_status = ''stopped'', stop_container_id = ''0123456789ab''\<rparr>"
  by (simp add: container_stop_def get_docker_client_def container_stop_try_def
        containers_get_def sdk_stop_def sdk_remove_def pop_fault_def untrack_container_def)

subsection \<open>Stopping does not read the session table\<close>

lemma pop_fault_table_indep:
  "pop_fault op (w\<lparr>active_containers := t\<rparr>) =
     (fst (pop_fault op w), (snd (pop_fault op w))\<lparr>active_containers := t\<rparr>)"
  by (simp add: pop_fault_def split: list.splits)

lemma pop_fault_table_indep':
  "pop_fault op (w\<lparr>active_containers := t, docker_client := b\<rparr>) =
     (fst (pop_fault op (w\<lparr>docker_client := b\<rparr>)),
      (snd (pop_fault op (w\<lparr>docker_client := b\<rparr>)))\<lparr>active_containers := t\<rparr>)"
  by (simp add: pop_fault_def split: list.splits)

lemma get_docker_client_table_indep:
  "get_docker_client (w\<lparr>active_containers := t\<rparr>) =
     (fst (get_docker_client w), (snd (get_docker_client w))\<lparr>active_containers := t\<rparr>)"
  by (simp add: get_docker_client_def pop_fault_table_indep pop_fault_table_indep' split_def
      split: option.splits)

lemma sdk_table_indep:
  "containers_get c (w\<lparr>active_containers := t\<rparr>) =
     (fst (containers_get c w), (snd (containers_get c w))\<lparr>active_containers := t\<rparr>)"
  "sdk_stop c (w\<lparr>active_containers := t\<rparr>) =
     (fst (sdk_stop c w), (snd (sdk_stop c w))\<lparr>active_containers := t\<rparr>)"
  "sdk_remove c (w\<lparr>active_containers := t\<rparr>) =
     (fst (sdk_remove c w), (snd (sdk_remove c w))\<lparr>active_containers := t\<rparr>)"
  by (simp_all add: containers_get_def sdk_stop_def sdk_remove_def pop_fault_table_indep split_def
      split: option.splits)

lemma untrack_engine_indep:
  "(snd (untrack_container c w))\<lparr>active_containers := t\<rparr> = w\<lparr>active_containers := t\<rparr>"
  by (simp add: untrack_container_def)

lemma container_stop_try_table_indep:
  "fst (container_stop_try c (w\<lparr>active_containers := t\<rparr>)) = fst (container_stop_try c w)"
  "(snd (container_stop_try c (w\<lparr>active_containers := t\<rparr>)))\<lparr>active_containers := t'\<rparr> =
   (snd (container_stop_try c w))\<lparr>active_containers := t'\<rparr>"
  by (simp_all add: container_stop_try_def sdk_table_indep split_def untrack_engine_indep split: sum.splits)

lemma container_stop_table_indep:
  "fst (container_stop c (w\<lparr>active_containers := t\<rparr>)) = fst (container_stop c w)"
  "(snd (container_stop c (w\<lparr>active_containers := t\<rparr>)))\<lparr>active_containers := t'\<rparr> =
   (snd (container_stop c w))\<lparr>active_containers := t'\<rparr>"
  by (simp_all add: container_stop_def get_docker_client_table_indep container_stop_try_table_indep
      split_def untrack_engine_indep split: sum.splits bool.splits)

text \<open>
  Claim C10. \<^verbatim>\<open>container_stop\<close> never asks whether the id is tracked: for every id the
  answer is 200, never the 404 of an unknown session; the answer and the daemon's
  containers afterwards are the same with an empty session table; and when the id is not
  tracked but the daemon has a container under it, that container is looked up, stopped
  and removed (the client being available and no call raising).
\<close>

theorem container_stop_any_id:
  "http_status (fst (container_stop cid w)) = 200
   \<and> fst (container_stop cid (w\<lparr>active_containers := []\<rparr>)) = fst (container_stop cid w)
   \<and> engine (snd (container_stop cid (w\<lparr>active_containers := []\<rparr>))) =
       engine (snd (container_stop cid w))
   \<and> (map_of (active_containers w) cid = None \<and> map_of (engine w) cid \<noteq> None \<and>
        fst (get_docker_client w) \<and> raises_nothing Get w \<and> raises_nothing Stop w \<and>
        raises_nothing Remove w \<longrightarrow>
        fst (container_stop cid w) = Inr \<lparr>stop_status = ''stopped'', stop_container_id = cid\<rparr>
        \<and> map_of (engine (snd (container_stop cid w))) cid = None)"
proof (intro conjI impI)
  obtain r where "fst (container_stop cid w) = Inr r" using container_stop_returns by blast
  then show "http_status (fst (container_stop cid w)) = 200" by simp
  show "fst (container_stop cid (w\<lparr>active_containers := []\<rparr>)) = fst (container_stop cid w)"
    by (rule container_stop_table_indep)
  have "engine ((snd (container_stop cid (w\<lparr>active_containers := []\<rparr>)))\<lparr>active_containers := []\<rparr>)
      = engine ((snd (container_stop cid w))\<lparr>active_containers := []\<rparr>)"
    by (simp only: container_stop_table_indep(2))
  then show "engine (snd (container_stop cid (w\<lparr>active_containers := []\<rparr>))) =
       engine (snd (container_stop cid w))" by simp
next
  assume a: "map_of (active_containers w) cid = None \<and> map_of (engine w) cid \<noteq> None \<and>
        fst (get_docker_client w) \<and> raises_nothing Get w \<and> raises_nothing Stop w \<and>
        raises_nothing Remove w"
  then show "fst (container_stop cid w) = Inr \<lparr>stop_status = ''stopped'', stop_container_id = cid\<rparr>"
    using container_stop_quiet(2)[of w cid] by auto
next
  assume a: "map_of (active_containers w) cid = None \<and> map_of (engine w) cid \<noteq> None \<and>
        fst (get_docker_client w) \<and> raises_nothing Get w \<and> raises_nothing Stop w \<and>
        raises_nothing Remove w"
  then show "map_of (engine (snd (container_stop cid w))) cid = None"
    using container_stop_quiet(1)[of w cid] by auto
qed

theorem container_stop_any_id_witness:
  "map_of (active_containers (demo_world\<lparr>active_containers := []\<rparr>)) ''0123456789ab'' = None
   \<and> map_of (engine (demo_world\<lparr>active_containers := []\<rparr>)) ''0123456789ab'' = Some ''running''
   \<and> fst (container_stop ''0123456789ab'' (demo_world\<lparr>active_containers := []\<rparr>)) =
       Inr \<lparr>stop_status = ''stopped'', stop_container_id = ''0123456789ab''\<rparr>
   \<and> map_of (engine (snd (container_stop ''0123456789ab'' (demo_world\<lparr>active_containers := []\<rparr>))))
        ''0123456789ab'' = None"
proof -
  let ?w = "demo_world\<lparr>active_containers := []\<rparr>"
  have h: "map_of (active_containers ?w) ''0123456789ab'' = None \<and>
           map_of (engine ?w) ''0123456789ab'' \<noteq> None \<and>
           fst (get_docker_client ?w) \<and> raises_nothing Get ?w \<and>
           raises_nothing Stop ?w \<and> raises_nothing Remove ?w"
    by (simp add: get_docker_client_def raises_nothing_def)
  have e: "map_of (engine ?w) ''0123456789ab'' = Some ''running''" by simp
  show ?thesis
    using container_stop_any_id[of "''0123456789ab''" ?w] h e by blast
qed

subsection \<open>Extending a session\<close>

lemma extend_loop_no_match:
  "\<forall>p\<in>set xs. session_id (snd p) \<noteq> Some sid \<Longrightarrow> extend_loop now sid d xs = None"
  by (induction xs) auto

lemma extend_loop_first_match:
  "\<forall>p\<in>set pre. session_id (snd p) \<noteq> Some sid \<Longrightarrow> session_id i = Some sid \<Longrightarrow>
   extend_loop now sid d (pre @ (c, i) # post) =
     Some (min (ttl_seconds i + d) MAX_SESSION_TTL,
           pre @ (c, i\<lparr>last_activity := Some now,
                        ttl_seconds := min (ttl_seconds i + d) MAX_SESSION_TTL\<rparr>) # post)"
  by (induction pre) (auto simp add: Let_def)

text \<open>
  Claim C6. \<^verbatim>\<open>extend_session\<close>: when no tracked record has the session id the answer is
  404 and the world is unchanged; otherwise the first record with that id gets, in one
  transition, \<open>ttl_seconds = min (old + delta) MAX_SESSION_TTL\<close> and
  \<open>last_activity = now\<close>, every other record and field stays, and the new TTL is at most
  \<open>MAX_SESSION_TTL\<close>.
\<close>

theorem extend_session_clamps:
  "((\<forall>p\<in>set (active_containers w). session_id (snd p) \<noteq> Some sid) \<longrightarrow>
      extend_session now sid delta w = (Inl (HTTPException 404), w))
   \<and> (\<forall>pre c i post.
        active_containers w = pre @ (c, i) # post \<and>
        (\<forall>p\<in>set pre. session_id (snd p) \<noteq> Some sid) \<and> session_id i = Some sid \<longrightarrow>
        extend_session now sid delta w =
          (Inr \<lparr>ex_session_id = sid, ex_extended_by = delta,
                ex_new_ttl = min (ttl_seconds i + delta) MAX_SESSION_TTL\<rparr>,
           w\<lparr>active_containers :=
                pre @ (c, i\<lparr>last_activity := Some now,
                             ttl_seconds := min (ttl_seconds i + delta) MAX_SESSION_TTL\<rparr>) # post\<rparr>)
        \<and> min (ttl_seconds i + delta) MAX_SESSION_TTL \<le> MAX_SESSION_TTL)"
  by (auto simp add: extend_session_def extend_loop_no_match extend_loop_first_match)

theorem extend_session_clamps_witness:
  "extend_session 5000000 ''5f2b'' 600 demo_world =
     (Inr \<lparr>ex_session_id = ''5f2b'', ex_extended_by = 600, ex_new_ttl = 720\<rparr>,
      demo_world\<lparr>active_containers :=
        [(''0123456789ab'', demo_session\<lparr>last_activity := Some 5000000, ttl_seconds := 720\<rparr>)]\<rparr>)
   \<and> extend_session 6000000 ''5f2b'' 9999
        (snd (extend_session 5000000 ''5f2b'' 600 demo_world)) =
     (Inr \<lparr>ex_session_id = ''5f2b'', ex_extended_by = 9999, ex_new_ttl = 3600\<rparr>,
      demo_world\<lparr>active_containers :=
        [(''0123456789ab'', demo_session\<lparr>last_activity := Some 6000000, ttl_seconds := 3600\<rparr>)]\<rparr>)
   \<and> extend_session 5000000 ''0000'' 600 demo_world = (Inl (HTTPException 404), demo_world)"
proof -
  have a: "active_containers demo_world = [] @ (''0123456789ab'', demo_session) # []" by simp
  have s: "session_id demo_session = Some ''5f2b''" "ttl_seconds demo_session = 120"
    by (simp_all add: demo_session_def)
  have n: "\<forall>p\<in>set (active_containers demo_world). session_id (snd p) \<noteq> Some ''0000''"
    by (simp add: s)
  let ?w1 = "demo_world\<lparr>active_containers :=
        [(''0123456789ab'', demo_session\<lparr>last_activity := Some 5000000, ttl_seconds := 720\<rparr>)]\<rparr>"
  have a1: "active_containers ?w1 =
     [] @ (''0123456789ab'', demo_session\<lparr>last_activity := Some 5000000, ttl_seconds := 720\<rparr>) # []"
    by simp
  have c1: "extend_session 5000000 ''5f2b'' 600 demo_world =
     (Inr \<lparr>ex_session_id = ''5f2b'', ex_extended_by = 600, ex_new_ttl = 720\<rparr>, ?w1)"
    using extend_session_clamps[of demo_world "''5f2b''" 5000000 600, THEN conjunct2,
        rule_format, of "[]" "''0123456789ab''" demo_session "[]"] s
    by (simp add: MAX_SESSION_TTL_def)
  have c2: "extend_session 6000000 ''5f2b'' 9999 ?w1 =
     (Inr \<lparr>ex_session_id = ''5f2b'', ex_extended_by = 9999, ex_new_ttl = 3600\<rparr>,
      demo_world\<lparr>active_containers :=
        [(''0123456789ab'', demo_session\<lparr>last_activity := Some 6000000, ttl_seconds := 3600\<rparr>)]\<rparr>)"
    using extend_session_clamps[of ?w1 "''5f2b''" 6000000 9999, THEN conjunct2,
        rule_format, of "[]" "''0123456789ab''"
        "demo_session\<lparr>last_activity := Some 5000000, ttl_seconds := 720\<rparr>" "[]"] s
    by (simp add: MAX_SESSION_TTL_def)
  have c3: "extend_session 5000000 ''0000'' 600 demo_world = (Inl (HTTPException 404), demo_world)"
    using extend_session_clamps[of demo_world "''0000''" 5000000 600] n by blast
  show ?thesis using c1 c2 c3 by simp
qed

subsection \<open>Executing touches the record first\<close>

lemma update_container_activity_tracked:
  "map_of (active_containers w) c = Some i \<Longrightarrow>
   update_container_activity now c w =
     (True, w\<lparr>active_containers :=
                AList.update c (i\<lparr>last_activity := Some now\<rparr>) (active_containers w)\<rparr>)"
  by (simp add: update_container_activity_def)

lemma container_exec_try_table [simp]:
  "active_containers (snd (container_exec_try out req w)) = active_containers w"
  by (simp add: container_exec_try_def split_def split: sum.splits bool.splits)

lemma container_exec_outcome:
  assumes "map_of (active_containers w) (exec_container_id req) = Some i"
  shows "fst (container_exec now out req w) =
           (case fst (container_exec_try out req
                        (snd (update_container_activity now (exec_container_id req) w))) of
              Inr r \<Rightarrow> Inr r
            | Inl e \<Rightarrow> if NotFound_in_type_name e then Inl (HTTPException 404)
                       else Inl (HTTPException 500))"
    and "map_of (active_containers (snd (container_exec now out req w))) (exec_container_id req) =
           (if fst (container_exec now out req w) = Inl (HTTPException 404) then None
            else Some (i\<lparr>last_activity := Some now\<rparr>))"
  using assms
  by (auto simp add: container_exec_def is_container_tracked_def split_def
      update_container_activity_tracked AList.update_conv' split: sum.splits)

text \<open>
  Claim C7 (as amended). \<^verbatim>\<open>container_exec\<close> on an untracked id answers 404 and changes nothing. On a
  tracked id the record's \<open>last_activity\<close> is set to the clock reading \<open>now\<close> before the
  engine is tried, and whatever the engine does the call ends in one of three ways: it
  returns the result, or it raises 500, in both cases leaving the record with
  \<open>last_activity = now\<close> and otherwise unchanged; or the engine reported the container as
  not found, the record is removed and 404 is raised. So a successful exec at a clock
  reading later than the stored \<open>last_activity\<close> strictly increases it.
\<close>

theorem container_exec_touches:
  "(\<not> is_container_tracked (exec_container_id req) w \<longrightarrow>
      container_exec now out req w = (Inl (HTTPException 404), w))
   \<and> (\<forall>i. map_of (active_containers w) (exec_container_id req) = Some i \<longrightarrow>
        map_of (active_containers (snd (update_container_activity now (exec_container_id req) w)))
          (exec_container_id req) = Some (i\<lparr>last_activity := Some now\<rparr>)
        \<and> fst (container_exec now out req w) =
            (case fst (container_exec_try out req
                         (snd (update_container_activity now (exec_container_id req) w))) of
               Inr r \<Rightarrow> Inr r
             | Inl e \<Rightarrow> if NotFound_in_type_name e then Inl (HTTPException 404)
                        else Inl (HTTPException 500))
        \<and> map_of (active_containers (snd (container_exec now out req w))) (exec_container_id req) =
            (if fst (container_exec now out req w) = Inl (HTTPException 404) then None
             else Some (i\<lparr>last_activity := Some now\<rparr>))
        \<and> (\<forall>t r. last_activity i = Some t \<and> t < now \<and>
               fst (container_exec now out req w) = Inr r \<longrightarrow>
               (\<exists>i' t'. map_of (active_containers (snd (container_exec now out req w)))
                           (exec_container_id req) = Some i' \<and>
                        last_activity i' = Some t' \<and> t < t')))"
proof (intro conjI allI impI)
  assume "\<not> is_container_tracked (exec_container_id req) w"
  then show "container_exec now out req w = (Inl (HTTPException 404), w)"
    by (simp add: container_exec_def)
next
  fix i assume a: "map_of (active_containers w) (exec_container_id req) = Some i"
  show "map_of (active_containers (snd (update_container_activity now (exec_container_id req) w)))
          (exec_container_id req) = Some (i\<lparr>last_activity := Some now\<rparr>)"
    using a by (simp add: update_container_activity_tracked AList.update_conv')
  show "fst (container_exec now out req w) =
            (case fst (container_exec_try out req
                         (snd (update_container_activity now (exec_container_id req) w))) of
               Inr r \<Rightarrow> Inr r
             | Inl e \<Rightarrow> if NotFound_in_type_name e then Inl (HTTPException 404)
                        else Inl (HTTPException 500))"
    using a by (rule container_exec_outcome(1))
  show "map_of (active_containers (snd (container_exec now out req w))) (exec_container_id req) =
            (if fst (container_exec now out req w) = Inl (HTTPException 404) then None
             else Some (i\<lparr>last_activity := Some now\<rparr>))"
    using a by (rule container_exec_outcome(2))
next
  fix i t r
  assume a: "map_of (active_containers w) (exec_container_id req) = Some i"
    and b: "last_activity i = Some t \<and> t < now \<and> fst (container_exec now out req w) = Inr r"
  have "map_of (active_containers (snd (container_exec now out req w))) (exec_container_id req) =
          Some (i\<lparr>last_activity := Some now\<rparr>)"
    using container_exec_outcome(2)[OF a, of now out] b by simp
  then show "\<exists>i' t'. map_of (active_containers (snd (container_exec now out req w)))
                           (exec_container_id req) = Some i' \<and>
                        last_activity i' = Some t' \<and> t < t'"
    using b by simp
qed


theorem container_exec_touches_witness:
  "map_of (active_containers demo_world) (exec_container_id demo_exec_request) = Some demo_session
   \<and> last_activity demo_session = Some 1000000
   \<and> fst (container_exec 11000000 demo_output demo_exec_request demo_world) =
       Inr \<lparr>er_container_id = ''0123456789ab'', er_command = ''expr 2 + 2'', er_exit_code = 0,
            er_stdout = ''4'', er_stderr = []\<rparr>
   \<and> (\<exists>i' t'. map_of (active_containers
                         (snd (container_exec 11000000 demo_output demo_exec_request demo_world)))
                  (exec_container_id demo_exec_request) = Some i' \<and>
               last_activity i' = Some t' \<and> 1000000 < t')
   \<and> \<not> is_container_tracked ''ffffffffffff'' demo_world
   \<and> container_exec 11000000 demo_output (demo_exec_request\<lparr>exec_container_id := ''ffffffffffff''\<rparr>)
        demo_world = (Inl (HTTPException 404), demo_world)"
proof -
  have m: "map_of (active_containers demo_world) (exec_container_id demo_exec_request) =
           Some demo_session"
    by (simp add: demo_exec_request_def)
  have l: "last_activity demo_session = Some 1000000" by (simp add: demo_session_def)
  have r: "fst (container_exec 11000000 demo_output demo_exec_request demo_world) =
       Inr \<lparr>er_container_id = ''0123456789ab'', er_command = ''expr 2 + 2'', er_exit_code = 0,
            er_stdout = ''4'', er_stderr = []\<rparr>"
    by (simp add: container_exec_def is_container_tracked_def update_container_activity_def
        container_exec_try_def get_docker_client_def containers_get_def exec_run_def pop_fault_def
        demo_exec_request_def demo_output_def MAX_OUTPUT_LENGTH_def)
  have u: "\<not> is_container_tracked ''ffffffffffff'' demo_world"
    by (simp add: is_container_tracked_def)
  note t1 = container_exec_touches[of demo_exec_request demo_world 11000000 demo_output,
      THEN conjunct2, rule_format, OF m, THEN conjunct2, THEN conjunct2, THEN conjunct2,
      rule_format, of 1000000]
  have e: "\<exists>i' t'. map_of (active_containers
                         (snd (container_exec 11000000 demo_output demo_exec_request demo_world)))
                  (exec_container_id demo_exec_request) = Some i' \<and>
               last_activity i' = Some t' \<and> 1000000 < t'"
    using t1 l r by simp
  have n: "container_exec 11000000 demo_output (demo_exec_request\<lparr>exec_container_id := ''ffffffffffff''\<rparr>)
        demo_world = (Inl (HTTPException 404), demo_world)"
    using container_exec_touches[of "demo_exec_request\<lparr>exec_container_id := ''ffffffffffff''\<rparr>"
        demo_world 11000000 demo_output] u by simp
  show ?thesis using m l r e u n by simp
qed

text \<open>
  The claim as stated fails where it says that each successful exec strictly increases
  \<open>last_activity\<close>: the new value is the reading of \<^verbatim>\<open>datetime.now()\<close>, the naive local
  wall clock. After the clock was set back (here to 0.4 s, with a stored last activity
  of 1 s) a successful exec lowers \<open>last_activity\<close>, and at an equal reading it leaves it
  as it was. And an exec that fails because the daemon no longer has the container does
  not extend the liveness of the record: the record is removed.
\<close>

theorem container_exec_clock_set_back:
  "map_option last_activity (map_of (active_containers demo_world) ''0123456789ab'') =
     Some (Some 1000000)
   \<and> http_status (fst (container_exec 400000 demo_output demo_exec_request demo_world)) = 200
   \<and> map_option last_activity
       (map_of (active_containers (snd (container_exec 400000 demo_output demo_exec_request demo_world)))
          ''0123456789ab'') = Some (Some 400000)
   \<and> http_status (fst (container_exec 1000000 demo_output demo_exec_request demo_world)) = 200
   \<and> map_option last_activity
       (map_of (active_containers (snd (container_exec 1000000 demo_output demo_exec_request demo_world)))
          ''0123456789ab'') = Some (Some 1000000)
   \<and> http_status (fst (container_exec 11000000 demo_output demo_exec_request
                          (demo_world\<lparr>engine := []\<rparr>))) = 404
   \<and> map_of (active_containers (snd (container_exec 11000000 demo_output demo_exec_request
                                        (demo_world\<lparr>engine := []\<rparr>))))
          ''0123456789ab'' = None"
  by (simp add: container_exec_def is_container_tracked_def update_container_activity_def
        container_exec_try_def get_docker_client_def containers_get_def exec_run_def pop_fault_def
        untrack_container_def
        demo_exec_request_def demo_output_def demo_session_def MAX_OUTPUT_LENGTH_def)

subsection \<open>Starting a container\<close>

lemma build_options_error: "build_options req cfg img = Inl e \<Longrightarrow> e = ValueError"
  by (auto simp add: build_options_def Let_def split: cpus.splits if_splits)

lemma build_image_frame [simp]:
  "active_containers (snd (build_image_if_needed n cfg w)) = active_containers w"
  "engine (snd (build_image_if_needed n cfg w)) = engine w"
  "registry (snd (build_image_if_needed n cfg w)) = registry w"
  by (simp_all add: build_image_if_needed_def Let_def split_def split: bool.splits)

lemma container_start_results:
  "fst (container_start env req w) = Inl (HTTPException 403) \<or>
   fst (container_start env req w) = Inl (HTTPException 404) \<or>
   fst (container_start env req w) = Inl (HTTPException 500) \<or>
   fst (container_start env req w) = Inl ValueError \<or>
   fst (container_start env req w) = Inl AttributeError \<or>
   (\<exists>r. fst (container_start env req w) = Inr r)"
  by (auto simp add: container_start_def is_container_allowed_def get_container_config_def
      split_def
      split: option.splits sum.splits bool.splits entry.splits document.splits
        containers_value.splits
      dest: build_options_error)

lemma get_container_config_error:
  "get_container_config n w = Inl e \<Longrightarrow> e = AttributeError"
  by (auto simp add: get_container_config_def split: document.splits containers_value.splits)

text \<open>
  The answer is 403 exactly when the lookup in the registry goes through and finds no
  profile; the world is then as before. When the lookup raises, that exception leaves the
  endpoint, again with the world as before.
\<close>

lemma container_start_lookup_raises:
  "get_container_config (container_name req) w = Inl e \<Longrightarrow>
     container_start env req w = (Inl AttributeError, w)"
  by (auto simp add: container_start_def is_container_allowed_def
      dest: get_container_config_error)

lemma container_start_not_listed:
  "get_container_config (container_name req) w = Inr None \<Longrightarrow>
     container_start env req w = (Inl (HTTPException 403), w)"
  by (simp add: container_start_def is_container_allowed_def)

lemma container_start_listed:
  "get_container_config (container_name req) w = Inr (Some c) \<Longrightarrow>
     fst (container_start env req w) \<noteq> Inl (HTTPException 403) \<and>
     http_status (fst (container_start env req w)) \<noteq> 403"
  by (auto simp add: container_start_def is_container_allowed_def split_def
      split: sum.splits entry.splits dest: build_options_error)

lemma container_start_403_iff:
  "(fst (container_start env req w) = Inl (HTTPException 403)) =
     (get_container_config (container_name req) w = Inr None)"
  "(http_status (fst (container_start env req w)) = 403) =
     (get_container_config (container_name req) w = Inr None)"
proof -
  show "(fst (container_start env req w) = Inl (HTTPException 403)) =
     (get_container_config (container_name req) w = Inr None)"
  proof (cases "get_container_config (container_name req) w")
    case (Inl x)
    then show ?thesis using container_start_lookup_raises[OF Inl, of env] by simp
  next
    case (Inr c)
    then show ?thesis
      using container_start_not_listed[of req w env] container_start_listed[of req w _ env]
      by (cases c) auto
  qed
  show "(http_status (fst (container_start env req w)) = 403) =
     (get_container_config (container_name req) w = Inr None)"
  proof (cases "get_container_config (container_name req) w")
    case (Inl x)
    then show ?thesis using container_start_lookup_raises[OF Inl, of env] by simp
  next
    case (Inr c)
    then show ?thesis
      using container_start_not_listed[of req w env] container_start_listed[of req w _ env]
      by (cases c) auto
  qed
qed

text \<open>
  For a registry file that is unreadable, or a mapping whose \<^verbatim>\<open>containers\<close> key is absent
  or maps names to entries, this is the statement of claim C1: 403 exactly when no
  profile is listed under the name.
\<close>

lemma get_container_config_catalog:
  "registry w = None \<Longrightarrow> get_container_config n w = Inr None"
  "registry w = Some (Mapping NoContainersKey) \<Longrightarrow> get_container_config n w = Inr None"
  "registry w = Some (Mapping (Containers cs)) \<Longrightarrow>
     (get_container_config n w = Inr None) =
     (map_of cs n = None \<or> map_of cs n = Some None)"
  by (auto simp add: get_container_config_def load_registry_def split: option.splits)

lemma idle_world_simps [simp]:
  "registry idle_world =
     Some (Mapping (Containers [(''python-sandbox'', Some (Profile python_sandbox))]))"
  "active_containers idle_world = []"
  "docker_client idle_world" "docker_available idle_world = Some True"
  "engine idle_world = []"
  "faults idle_world = (\<lambda>op. [])"
  by (simp_all add: idle_world_def)

lemmas start_unfold =
  container_start_def is_container_allowed_def get_container_config_def load_registry_def
  build_image_if_needed_def build_options_def container_start_try_def execute_and_respond_def
  get_docker_client_def
  containers_run_def ttyd_bring_up_def track_container_def get_container_session_def
  run_code_def one_shot_cleanup_def sdk_call_def exec_run_def sdk_stop_def sdk_remove_def
  untrack_container_def pop_fault_def python_sandbox_def demo_start_env_def
  demo_start_request_def demo_output_def MAX_OUTPUT_LENGTH_def MAX_SESSION_TTL_def
  DEFAULT_SESSION_TTL_def Let_def

text \<open>
  Claim C1 fails on the code. An empty registry file parses to \<^verbatim>\<open>None\<close> without an
  exception, and a bare \<^verbatim>\<open>containers:\<close> key to a mapping with a null value; in both
  \<^verbatim>\<open>registry.get("containers", {}).get(name)\<close> raises \<^verbatim>\<open>AttributeError\<close> before the
  endpoint's \<^verbatim>\<open>try\<close>, and a start under a name that no profile is listed for is answered
  500, not 403. Nothing else happens: the world is as before. An unreadable file, for
  which \<^verbatim>\<open>load_registry\<close> falls back to the empty catalog, is answered 403.
\<close>

theorem container_start_empty_registry_500:
  "container_start demo_start_env (demo_start_request\<lparr>container_name := ''rogue''\<rparr>)
     (idle_world\<lparr>registry := Some NotMapping\<rparr>) =
     (Inl AttributeError, idle_world\<lparr>registry := Some NotMapping\<rparr>)
   \<and> http_status (fst (container_start demo_start_env
          (demo_start_request\<lparr>container_name := ''rogue''\<rparr>)
          (idle_world\<lparr>registry := Some NotMapping\<rparr>))) = 500
   \<and> container_start demo_start_env (demo_start_request\<lparr>container_name := ''rogue''\<rparr>)
       (idle_world\<lparr>registry := Some (Mapping ContainersNotMapping)\<rparr>) =
       (Inl AttributeError, idle_world\<lparr>registry := Some (Mapping ContainersNotMapping)\<rparr>)
   \<and> http_status (fst (container_start demo_start_env
          (demo_start_request\<lparr>container_name := ''rogue''\<rparr>)
          (idle_world\<lparr>registry := Some (Mapping ContainersNotMapping)\<rparr>))) = 500
   \<and> container_start demo_start_env (demo_start_request\<lparr>container_name := ''rogue''\<rparr>)
       (idle_world\<lparr>registry := None\<rparr>) =
       (Inl (HTTPException 403), idle_world\<lparr>registry := None\<rparr>)
   \<and> container_start demo_start_env (demo_start_request\<lparr>container_name := ''rogue''\<rparr>)
       idle_world = (Inl (HTTPException 403), idle_world)"
  by (simp add: container_start_def is_container_allowed_def get_container_config_def
      load_registry_def demo_start_request_def)

lemma demo_one_shot:
  "container_start demo_start_env demo_start_request idle_world =
     (Inr \<lparr>start_status = ''started'', start_container_id = ''0123456789ab'',
           start_container_name = ''python-sandbox'',
           start_execution_result = Some \<lparr>res_exit_code = 0, res_stdout = ''4'', res_stderr = []\<rparr>,
           start_session = None\<rparr>, idle_world)"
  by (simp add: start_unfold idle_world_def demo_world_def)


subsection \<open>Starting while the engine is unavailable\<close>

lemma get_docker_client_down:
  "docker_available w = Some False \<Longrightarrow> get_docker_client w = (False, w)"
  by (simp add: get_docker_client_def)

lemma get_docker_client_stays_down:
  "\<not> fst (get_docker_client w) \<Longrightarrow> \<not> fst (get_docker_client (snd (get_docker_client w)))"
  by (simp add: get_docker_client_False get_docker_client_down)

lemma build_image_client:
  "\<not> fst (get_docker_client w) \<Longrightarrow>
   snd (build_image_if_needed n cfg w) = snd (get_docker_client w)"
  by (simp add: build_image_if_needed_def Let_def split_def split: bool.splits)

lemma container_start_try_down:
  "\<not> fst (get_docker_client w) \<Longrightarrow>
   container_start_try env req cfg opts w = (Inl (HTTPException 503), snd (get_docker_client w))"
  by (simp add: container_start_try_def split_def split: bool.splits)

lemma container_start_engine_down:
  assumes "get_container_config (container_name req) w = Inr (Some (Profile cfg))"
    and "\<not> fst (get_docker_client w)"
  shows "http_status (fst (container_start env req w)) = 500"
proof -
  let ?w1 = "snd (build_image_if_needed (container_name req) cfg w)"
  have d: "\<not> fst (get_docker_client ?w1)"
    using assms(2) by (simp add: build_image_client get_docker_client_stays_down)
  show ?thesis
    using assms(1) container_start_try_down[OF d]
    by (auto simp add: container_start_def is_container_allowed_def split_def
        split: sum.splits dest: build_options_error)
qed

text \<open>
  Claim C4 fails on the code. With the engine client unavailable, the 503 that
  \<^verbatim>\<open>container_start\<close> raises inside its \<^verbatim>\<open>try\<close> block is caught by the block's own
  \<^verbatim>\<open>except Exception\<close> and raised again as 500: both when the client was found unavailable
  before and when the first connection fails during this call.
\<close>

theorem container_start_engine_down_500:
  "container_start demo_start_env demo_start_request
     (idle_world\<lparr>docker_client := False, docker_available := Some False\<rparr>) =
     (Inl (HTTPException 500), idle_world\<lparr>docker_client := False, docker_available := Some False\<rparr>)
   \<and> http_status (fst (container_start demo_start_env demo_start_request
        (idle_world\<lparr>docker_client := False, docker_available := Some False\<rparr>))) = 500
   \<and> fst (container_start demo_start_env demo_start_request
        (idle_world\<lparr>docker_client := False, docker_available := None,
                    faults := (\<lambda>op. [])(FromEnv := [Some DockerException])\<rparr>)) =
     Inl (HTTPException 500)"
  by (simp add: start_unfold idle_world_def demo_world_def)

subsection \<open>The record a start creates\<close>

lemma ttyd_bring_up_frame [simp]:
  "active_containers (snd (ttyd_bring_up env c i w)) = active_containers w"
  "engine (snd (ttyd_bring_up env c i w)) = engine w"
  "client_ready (snd (ttyd_bring_up env c i w)) = client_ready w"
  by (simp_all add: ttyd_bring_up_def split_def Let_def split: sum.splits option.splits list.splits)

lemma ttyd_bring_up_quiet [simp]:
  "raises_nothing op w \<Longrightarrow> raises_nothing op (snd (ttyd_bring_up env c i w))"
  by (simp add: ttyd_bring_up_def split_def Let_def split: sum.splits option.splits list.splits)

lemma ttyd_bring_up_info [simp]:
  "ttl_seconds (snd (fst (ttyd_bring_up env c i w))) = ttl_seconds i"
  "persistent (snd (fst (ttyd_bring_up env c i w))) = persistent i"
  "session_id (snd (fst (ttyd_bring_up env c i w))) = session_id i"
  "started_at (snd (fst (ttyd_bring_up env c i w))) = started_at i"
  "last_activity (snd (fst (ttyd_bring_up env c i w))) = last_activity i"
  by (simp_all add: ttyd_bring_up_def split_def Let_def split: sum.splits option.splits list.splits)

lemma track_container_frame [simp]:
  "engine (track_container now u c i w) = engine w"
  "faults (track_container now u c i w) = faults w"
  "client_ready (track_container now u c i w) = client_ready w"
  "raises_nothing op (track_container now u c i w) = raises_nothing op w"
  by (simp_all add: track_container_def Let_def client_ready_def raises_nothing_def)

lemma track_container_record:
  "\<exists>r. map_of (active_containers (track_container now u c i w)) c = Some r \<and>
       ttl_seconds r = ttl_seconds i \<and> persistent r = persistent i \<and>
       session_id r = Some (case session_id i of None \<Rightarrow> u | Some s \<Rightarrow> s) \<and>
       started_at r = Some (case started_at i of None \<Rightarrow> now | Some t \<Rightarrow> t) \<and>
       last_activity r = Some (case last_activity i of None \<Rightarrow> now | Some t \<Rightarrow> t)"
  by (auto simp add: track_container_def Let_def AList.update_conv' split: option.splits)

lemma run_code_frame [simp]:
  "active_containers (snd (run_code env c w)) = active_containers w"
  "engine (snd (run_code env c w)) = engine w"
  "client_ready (snd (run_code env c w)) = client_ready w"
  by (simp_all add: run_code_def split_def split: sum.splits)

lemma run_code_quiet [simp]:
  "raises_nothing op w \<Longrightarrow> raises_nothing op (snd (run_code env c w))"
  by (simp add: run_code_def split_def split: sum.splits)

lemma one_shot_cleanup_table:
  "map_of (active_containers (one_shot_cleanup c w)) c = None \<or>
   active_containers (one_shot_cleanup c w) = active_containers w"
  by (simp add: one_shot_cleanup_def split_def split: sum.splits)

lemma containers_run_result:
  "fst (containers_run opts n w) = Inr x \<Longrightarrow>
   x = n \<and> engine (snd (containers_run opts n w)) = AList.update (take 12 n) ''running'' (engine w)"
  by (auto simp add: containers_run_def split_def split: option.splits)

lemma execute_and_respond_result:
  assumes "fst (execute_and_respond env req c si url sid w) = Inr resp"
  shows "start_container_id resp = c"
    and "start_session resp =
           (if keep_alive req
            then Some \<lparr>ss_session_id = Some sid, ss_persistent = keep_alive req,
                       ss_ttl_seconds = ttl_seconds si, ss_ttyd_url = url\<rparr>
            else None)"
    and "(start_execution_result resp \<noteq> None) = truthy (code req)"
  using assms
  by (auto simp add: execute_and_respond_def split_def split: sum.splits if_splits)

lemma execute_and_respond_table:
  "map_of (active_containers (snd (execute_and_respond env req c si url sid w))) c =
     map_of (active_containers w) c
   \<or> \<not> keep_alive req \<and> truthy (code req) \<and>
     map_of (active_containers (snd (execute_and_respond env req c si url sid w))) c = None"
  using one_shot_cleanup_table[of c "snd (run_code env c w)"]
  by (auto simp add: execute_and_respond_def split_def split: sum.splits)

lemma container_start_try_record:
  assumes "fst (container_start_try env req cfg opts w) = Inr resp"
  shows "start_container_id resp = take 12 (env_new_id env)
     \<and> (\<exists>r. ttl_seconds r = min (ttl_or_default (req_ttl_seconds req)) MAX_SESSION_TTL \<and>
            persistent r = keep_alive req \<and>
            session_id r = Some (env_uuid4 env) \<and>
            last_activity r = Some (env_now env) \<and>
            (map_of (active_containers (snd (container_start_try env req cfg opts w)))
               (take 12 (env_new_id env)) = Some r
             \<or> \<not> keep_alive req \<and> truthy (code req) \<and>
               map_of (active_containers (snd (container_start_try env req cfg opts w)))
                 (take 12 (env_new_id env)) = None))
     \<and> (keep_alive req \<longrightarrow>
          (\<exists>s. start_session resp = Some s \<and>
               ss_ttl_seconds s = min (ttl_or_default (req_ttl_seconds req)) MAX_SESSION_TTL))"
proof -
  let ?cid = "take 12 (env_new_id env)"
  let ?si = "\<lparr>name = container_name req, config = cfg, persistent = keep_alive req,
               ttl_seconds = min (ttl_or_default (req_ttl_seconds req)) MAX_SESSION_TTL,
               ttyd_port = None, ttyd_enabled = None, ttyd_url = None,
               session_id = None, started_at = None, last_activity = None\<rparr>"
  let ?w1 = "snd (get_docker_client w)"
  let ?w2 = "snd (containers_run opts (env_new_id env) ?w1)"
  let ?tw = "if enable_ttyd req then ttyd_bring_up env ?cid ?si ?w2 else ((None, ?si), ?w2)"
  let ?w4 = "track_container (env_now env) (env_uuid4 env) ?cid (snd (fst ?tw)) (snd ?tw)"
  have cl: "fst (get_docker_client w)"
    using assms by (auto simp add: container_start_try_def split_def split: bool.splits)
  have run: "fst (containers_run opts (env_new_id env) ?w1) = Inr (env_new_id env)"
    using assms cl
    by (auto simp add: container_start_try_def split_def split: sum.splits dest: containers_run_result)
  have si: "ttl_seconds (snd (fst ?tw)) = min (ttl_or_default (req_ttl_seconds req)) MAX_SESSION_TTL"
    "persistent (snd (fst ?tw)) = keep_alive req" "session_id (snd (fst ?tw)) = None"
    "last_activity (snd (fst ?tw)) = None"
    by simp_all
  obtain r where r: "map_of (active_containers ?w4) ?cid = Some r"
    "ttl_seconds r = min (ttl_or_default (req_ttl_seconds req)) MAX_SESSION_TTL"
    "persistent r = keep_alive req" "session_id r = Some (env_uuid4 env)"
    "last_activity r = Some (env_now env)"
    using track_container_record[of "env_now env" "env_uuid4 env" ?cid "snd (fst ?tw)" "snd ?tw"] si
    by auto
  have eq: "container_start_try env req cfg opts w =
     execute_and_respond env req ?cid (snd (fst ?tw)) (fst (fst ?tw)) (env_uuid4 env) ?w4"
    using cl run r(1,4)
    by (simp add: container_start_try_def split_def Let_def get_container_session_def
        split: bool.splits)
  have res: "fst (execute_and_respond env req ?cid (snd (fst ?tw)) (fst (fst ?tw)) (env_uuid4 env) ?w4)
      = Inr resp"
    using assms eq by simp
  note er = execute_and_respond_result[OF res]
  note et = execute_and_respond_table[of env req ?cid "snd (fst ?tw)" "fst (fst ?tw)" "env_uuid4 env" ?w4]
  have "start_container_id resp = ?cid" using er(1) .
  moreover have "\<exists>r. ttl_seconds r = min (ttl_or_default (req_ttl_seconds req)) MAX_SESSION_TTL \<and>
            persistent r = keep_alive req \<and>
            session_id r = Some (env_uuid4 env) \<and>
            last_activity r = Some (env_now env) \<and>
            (map_of (active_containers (snd (container_start_try env req cfg opts w))) ?cid = Some r
             \<or> \<not> keep_alive req \<and> truthy (code req) \<and>
               map_of (active_containers (snd (container_start_try env req cfg opts w))) ?cid = None)"
    using et r unfolding eq by metis
  moreover have "keep_alive req \<longrightarrow>
          (\<exists>s. start_session resp = Some s \<and>
               ss_ttl_seconds s = min (ttl_or_default (req_ttl_seconds req)) MAX_SESSION_TTL)"
    using er(2) si(1) by simp
  ultimately show ?thesis by blast
qed


lemma container_start_success:
  assumes "fst (container_start env req w) = Inr resp"
  shows "\<exists>cfg opts. get_container_config (container_name req) w = Inr (Some (Profile cfg)) \<and>
           container_start env req w =
             container_start_try env req cfg opts
               (snd (build_image_if_needed (container_name req) cfg w))"
proof -
  obtain cfg where c: "get_container_config (container_name req) w = Inr (Some (Profile cfg))"
    using assms
    by (auto simp add: container_start_def is_container_allowed_def
        split: sum.splits option.splits entry.splits bool.splits if_splits)
  let ?img = "fst (build_image_if_needed (container_name req) cfg w)"
  let ?w1 = "snd (build_image_if_needed (container_name req) cfg w)"
  obtain opts where o: "build_options req cfg ?img = Inr opts"
    using assms c
    by (cases "build_options req cfg ?img")
      (auto simp add: container_start_def is_container_allowed_def split_def)
  have "container_start env req w = container_start_try env req cfg opts ?w1"
    using assms c o
    by (cases "container_start_try env req cfg opts ?w1")
      (auto simp add: container_start_def is_container_allowed_def split_def split: sum.splits)
  with c show ?thesis by blast
qed

lemma container_start_record:
  assumes "fst (container_start env req w) = Inr resp"
  shows "start_container_id resp = take 12 (env_new_id env)
     \<and> (\<exists>r. ttl_seconds r = min (ttl_or_default (req_ttl_seconds req)) MAX_SESSION_TTL \<and>
            persistent r = keep_alive req \<and>
            session_id r = Some (env_uuid4 env) \<and>
            last_activity r = Some (env_now env) \<and>
            (map_of (active_containers (snd (container_start env req w)))
               (take 12 (env_new_id env)) = Some r
             \<or> \<not> keep_alive req \<and> truthy (code req) \<and>
               map_of (active_containers (snd (container_start env req w)))
                 (take 12 (env_new_id env)) = None))
     \<and> (keep_alive req \<longrightarrow>
          (\<exists>s. start_session resp = Some s \<and>
               ss_ttl_seconds s = min (ttl_or_default (req_ttl_seconds req)) MAX_SESSION_TTL))"
proof -
  obtain cfg opts where eq: "container_start env req w =
             container_start_try env req cfg opts
               (snd (build_image_if_needed (container_name req) cfg w))"
    using container_start_success[OF assms] by blast
  show ?thesis
    using container_start_try_record[of env req cfg opts
        "snd (build_image_if_needed (container_name req) cfg w)" resp] assms
    unfolding eq by simp
qed

text \<open>
  Claim C5 (as amended). For every successful start the record that is created has a
  \<open>ttl_seconds\<close> of at most \<open>MAX_SESSION_TTL\<close>; it is \<open>DEFAULT_SESSION_TTL\<close> when no
  value or the value 0 was requested, and \<open>min requested MAX_SESSION_TTL\<close> when a positive
  value was requested, so that it lies in \<open>[0, MAX_SESSION_TTL]\<close> for every request
  without a negative value. The record is in the table on return of a persistent start,
  and the response's session object carries the same TTL.
\<close>

theorem container_start_ttl:
  assumes "fst (container_start env req w) = Inr resp"
  shows "(keep_alive req \<longrightarrow>
            (\<exists>i s. map_of (active_containers (snd (container_start env req w)))
                      (start_container_id resp) = Some i \<and>
                   start_session resp = Some s \<and> ss_ttl_seconds s = ttl_seconds i))
     \<and> (\<forall>i. map_of (active_containers (snd (container_start env req w)))
               (start_container_id resp) = Some i \<longrightarrow>
            ttl_seconds i \<le> MAX_SESSION_TTL
            \<and> (req_ttl_seconds req = None \<or> req_ttl_seconds req = Some 0 \<longrightarrow>
                 ttl_seconds i = DEFAULT_SESSION_TTL)
            \<and> (\<forall>n. req_ttl_seconds req = Some n \<and> 0 < n \<longrightarrow>
                 ttl_seconds i = min n MAX_SESSION_TTL)
            \<and> ((\<forall>n. req_ttl_seconds req = Some n \<longrightarrow> 0 \<le> n) \<longrightarrow> 0 \<le> ttl_seconds i))"
proof -
  let ?t = "min (ttl_or_default (req_ttl_seconds req)) MAX_SESSION_TTL"
  note rec = container_start_record[OF assms]
  have up: "?t \<le> MAX_SESSION_TTL" by simp
  have d: "req_ttl_seconds req = None \<or> req_ttl_seconds req = Some 0 \<Longrightarrow> ?t = DEFAULT_SESSION_TTL"
    by (auto simp add: DEFAULT_SESSION_TTL_def MAX_SESSION_TTL_def)
  have p: "\<And>n. req_ttl_seconds req = Some n \<Longrightarrow> 0 < n \<Longrightarrow> ?t = min n MAX_SESSION_TTL"
    by simp
  have lo: "(\<forall>n. req_ttl_seconds req = Some n \<longrightarrow> 0 \<le> n) \<Longrightarrow> 0 \<le> ?t"
    by (cases "req_ttl_seconds req") (auto simp add: DEFAULT_SESSION_TTL_def MAX_SESSION_TTL_def)
  show ?thesis
    using rec up d p lo by (auto simp del: ttl_or_default.simps)
qed


theorem container_start_ttl_witness:
  "fst (container_start demo_start_env
          (demo_start_request\<lparr>keep_alive := True, req_ttl_seconds := Some 9999\<rparr>) idle_world) =
     Inr \<lparr>start_status = ''started'', start_container_id = ''0123456789ab'',
          start_container_name = ''python-sandbox'',
          start_execution_result = Some \<lparr>res_exit_code = 0, res_stdout = ''4'', res_stderr = []\<rparr>,
          start_session = Some \<lparr>ss_session_id = Some ''5f2b'', ss_persistent = True,
                                 ss_ttl_seconds = 3600, ss_ttyd_url = None\<rparr>\<rparr>
   \<and> (\<exists>i. map_of (active_containers (snd (container_start demo_start_env
              (demo_start_request\<lparr>keep_alive := True, req_ttl_seconds := Some 9999\<rparr>) idle_world)))
            ''0123456789ab'' = Some i \<and> ttl_seconds i = 3600)"
proof -
  let ?req = "demo_start_request\<lparr>keep_alive := True, req_ttl_seconds := Some 9999\<rparr>"
  let ?resp = "\<lparr>start_status = ''started'', start_container_id = ''0123456789ab'',
          start_container_name = ''python-sandbox'',
          start_execution_result = Some \<lparr>res_exit_code = 0, res_stdout = ''4'', res_stderr = []\<rparr>,
          start_session = Some \<lparr>ss_session_id = Some ''5f2b'', ss_persistent = True,
                                 ss_ttl_seconds = 3600, ss_ttyd_url = None\<rparr>\<rparr>"
  have ev: "fst (container_start demo_start_env ?req idle_world) = Inr ?resp"
    by (simp add: start_unfold idle_world_def demo_world_def)
  have k: "keep_alive ?req" "req_ttl_seconds ?req = Some 9999" by simp_all
  from container_start_ttl[OF ev] k
  have "\<exists>i s. map_of (active_containers (snd (container_start demo_start_env ?req idle_world)))
                      (start_container_id ?resp) = Some i \<and>
                   start_session ?resp = Some s \<and> ss_ttl_seconds s = ttl_seconds i"
    by blast
  then have "\<exists>i. map_of (active_containers (snd (container_start demo_start_env ?req idle_world)))
            ''0123456789ab'' = Some i \<and> ttl_seconds i = 3600"
    by auto
  with ev show ?thesis by simp
qed

text \<open>
  The claim as stated fails: a requested \<open>ttl_seconds\<close> of 0 is stored as the default 300,
  and a requested \<open>-5\<close> is stored as \<open>-5\<close>, below 0.
\<close>

theorem container_start_ttl_zero_and_negative:
  "(\<exists>i. map_of (active_containers (snd (container_start demo_start_env
              (demo_start_request\<lparr>keep_alive := True, req_ttl_seconds := Some 0\<rparr>) idle_world)))
            ''0123456789ab'' = Some i \<and> ttl_seconds i = 300)
   \<and> (\<exists>i. map_of (active_containers (snd (container_start demo_start_env
              (demo_start_request\<lparr>keep_alive := True, req_ttl_seconds := Some (- 5)\<rparr>) idle_world)))
            ''0123456789ab'' = Some i \<and> ttl_seconds i = - 5)"
  by (simp add: start_unfold idle_world_def demo_world_def)

subsection \<open>The clean-up of a one-shot start\<close>

lemma one_shot_cleanup_quiet:
  assumes "raises_nothing Stop w" "raises_nothing Remove w" "map_of (engine w) c = Some st"
  shows "map_of (active_containers (one_shot_cleanup c w)) c = None"
    and "map_of (engine (one_shot_cleanup c w)) c = None"
proof -
  let ?w1 = "snd (sdk_stop c w)"
  have s: "fst (sdk_stop c w) = Inr ()" "map_of (engine ?w1) c = Some ''exited''"
    using sdk_stop_quiet[of w c st] assms by simp_all
  have r: "fst (sdk_remove c ?w1) = Inr ()" "map_of (engine (snd (sdk_remove c ?w1))) c = None"
    using sdk_remove_quiet[of ?w1 c "''exited''"] s assms by simp_all
  show "map_of (active_containers (one_shot_cleanup c w)) c = None"
    using s r by (simp add: one_shot_cleanup_def split_def)
  show "map_of (engine (one_shot_cleanup c w)) c = None"
    using s r by (simp add: one_shot_cleanup_def split_def)
qed

lemma execute_and_respond_one_shot:
  assumes "fst (execute_and_respond env req c si url sid w) = Inr resp"
    and "\<not> keep_alive req" "truthy (code req)"
  shows "snd (execute_and_respond env req c si url sid w) = one_shot_cleanup c (snd (run_code env c w))"
  using assms by (auto simp add: execute_and_respond_def split_def split: sum.splits)

lemma build_image_quiet [simp]:
  "raises_nothing op w \<Longrightarrow> raises_nothing op (snd (build_image_if_needed n cfg w))"
  by (simp add: build_image_if_needed_def Let_def split_def split: bool.splits)

lemma container_start_try_one_shot:
  assumes "fst (container_start_try env req cfg opts w) = Inr resp"
    and "\<not> keep_alive req" "truthy (code req)"
    and "raises_nothing Stop w" "raises_nothing Remove w"
  shows "map_of (active_containers (snd (container_start_try env req cfg opts w)))
           (take 12 (env_new_id env)) = None
       \<and> map_of (engine (snd (container_start_try env req cfg opts w)))
           (take 12 (env_new_id env)) = None"
proof -
  let ?cid = "take 12 (env_new_id env)"
  let ?si = "\<lparr>name = container_name req, config = cfg, persistent = keep_alive req,
               ttl_seconds = min (ttl_or_default (req_ttl_seconds req)) MAX_SESSION_TTL,
               ttyd_port = None, ttyd_enabled = None, ttyd_url = None,
               session_id = None, started_at = None, last_activity = None\<rparr>"
  let ?w1 = "snd (get_docker_client w)"
  let ?w2 = "snd (containers_run opts (env_new_id env) ?w1)"
  let ?tw = "if enable_ttyd req then ttyd_bring_up env ?cid ?si ?w2 else ((None, ?si), ?w2)"
  let ?w4 = "track_container (env_now env) (env_uuid4 env) ?cid (snd (fst ?tw)) (snd ?tw)"
  let ?w5 = "snd (run_code env ?cid ?w4)"
  have cl: "fst (get_docker_client w)"
    using assms(1) by (auto simp add: container_start_try_def split_def split: bool.splits)
  have run: "fst (containers_run opts (env_new_id env) ?w1) = Inr (env_new_id env)"
    using assms(1) cl
    by (auto simp add: container_start_try_def split_def split: sum.splits dest: containers_run_result)
  have e2: "map_of (engine ?w2) ?cid = Some ''running''"
    using containers_run_result[OF run] by (simp add: AList.update_conv')
  have e5: "map_of (engine ?w5) ?cid = Some ''running''" using e2 by simp
  have q5: "raises_nothing Stop ?w5" "raises_nothing Remove ?w5"
    using assms(4,5) by simp_all
  obtain r where r: "map_of (active_containers ?w4) ?cid = Some r" "session_id r = Some (env_uuid4 env)"
    using track_container_record[of "env_now env" "env_uuid4 env" ?cid "snd (fst ?tw)" "snd ?tw"]
    by auto
  have eq: "container_start_try env req cfg opts w =
     execute_and_respond env req ?cid (snd (fst ?tw)) (fst (fst ?tw)) (env_uuid4 env) ?w4"
    using cl run r
    by (simp add: container_start_try_def split_def Let_def get_container_session_def
        split: bool.splits)
  have res: "fst (execute_and_respond env req ?cid (snd (fst ?tw)) (fst (fst ?tw)) (env_uuid4 env) ?w4)
      = Inr resp"
    using assms(1) eq by simp
  have "snd (container_start_try env req cfg opts w) = one_shot_cleanup ?cid ?w5"
    using execute_and_respond_one_shot[OF res assms(2,3)] eq by simp
  then show ?thesis
    using one_shot_cleanup_quiet[OF q5 e5] by simp
qed

text \<open>
  Claim C3 (as amended). For every start with \<open>keep_alive = False\<close> that carries
  non-empty code and returns its response, when neither the stop nor the remove of the
  clean-up raises: on return the session table has no record for the produced container
  id and the daemon no longer has the container.
\<close>

theorem container_start_one_shot:
  assumes "fst (container_start env req w) = Inr resp"
    and "\<not> keep_alive req" and "truthy (code req)"
    and "raises_nothing Stop w" and "raises_nothing Remove w"
  shows "map_of (active_containers (snd (container_start env req w))) (start_container_id resp) = None
       \<and> map_of (engine (snd (container_start env req w))) (start_container_id resp) = None
       \<and> start_execution_result resp \<noteq> None \<and> start_session resp = None"
proof -
  obtain cfg opts where eq: "container_start env req w =
             container_start_try env req cfg opts
               (snd (build_image_if_needed (container_name req) cfg w))"
    using container_start_success[OF assms(1)] by blast
  let ?w1 = "snd (build_image_if_needed (container_name req) cfg w)"
  have t: "fst (container_start_try env req cfg opts ?w1) = Inr resp" using assms(1) eq by simp
  have q: "raises_nothing Stop ?w1" "raises_nothing Remove ?w1" using assms(4,5) by simp_all
  have id: "start_container_id resp = take 12 (env_new_id env)"
    using container_start_record[OF assms(1)] by blast
  have a: "map_of (active_containers (snd (container_start env req w))) (start_container_id resp) = None
       \<and> map_of (engine (snd (container_start env req w))) (start_container_id resp) = None"
    using container_start_try_one_shot[OF t assms(2,3) q] eq id by simp
  have b: "start_execution_result resp \<noteq> None \<and> start_session resp = None"
    using t assms(2,3)
    by (auto simp add: container_start_try_def execute_and_respond_def split_def Let_def
        split: bool.splits sum.splits option.splits if_splits)
  show ?thesis using a b by blast
qed

theorem container_start_one_shot_witness:
  "fst (container_start demo_start_env demo_start_request idle_world) =
     Inr \<lparr>start_status = ''started'', start_container_id = ''0123456789ab'',
           start_container_name = ''python-sandbox'',
           start_execution_result = Some \<lparr>res_exit_code = 0, res_stdout = ''4'', res_stderr = []\<rparr>,
           start_session = None\<rparr>
   \<and> \<not> keep_alive demo_start_request \<and> truthy (code demo_start_request)
   \<and> raises_nothing Stop idle_world \<and> raises_nothing Remove idle_world
   \<and> map_of (active_containers (snd (container_start demo_start_env demo_start_request idle_world)))
        ''0123456789ab'' = None
   \<and> map_of (engine (snd (container_start demo_start_env demo_start_request idle_world)))
        ''0123456789ab'' = None"
proof -
  let ?resp = "\<lparr>start_status = ''started'', start_container_id = ''0123456789ab'',
           start_container_name = ''python-sandbox'',
           start_execution_result = Some \<lparr>res_exit_code = 0, res_stdout = ''4'', res_stderr = []\<rparr>,
           start_session = None\<rparr>"
  have ev: "fst (container_start demo_start_env demo_start_request idle_world) = Inr ?resp"
    by (simp add: demo_one_shot)
  have h: "\<not> keep_alive demo_start_request" "truthy (code demo_start_request)"
    "raises_nothing Stop idle_world" "raises_nothing Remove idle_world"
    by (simp_all add: demo_start_request_def raises_nothing_def)
  from container_start_one_shot[OF ev h] ev h show ?thesis by simp
qed

text \<open>
  The claim as stated fails twice: a start with \<open>keep_alive = False\<close> and no code leaves
  its record in the table and its container running; and when the daemon refuses the stop
  of the clean-up, the record of a start that ran its code stays in the table as well.
\<close>

theorem container_start_one_shot_leaks:
  "map_of (active_containers (snd (container_start demo_start_env
            (demo_start_request\<lparr>code := None\<rparr>) idle_world))) ''0123456789ab'' \<noteq> None
   \<and> map_of (engine (snd (container_start demo_start_env
            (demo_start_request\<lparr>code := None\<rparr>) idle_world))) ''0123456789ab'' = Some ''running''
   \<and> http_status (fst (container_start demo_start_env
            (demo_start_request\<lparr>code := None\<rparr>) idle_world)) = 200
   \<and> map_of (active_containers (snd (container_start demo_start_env demo_start_request
            (idle_world\<lparr>faults := (\<lambda>op. [])(Stop := [Some APIError])\<rparr>)))) ''0123456789ab'' \<noteq> None
   \<and> http_status (fst (container_start demo_start_env demo_start_request
            (idle_world\<lparr>faults := (\<lambda>op. [])(Stop := [Some APIError])\<rparr>))) = 200"
  by (simp add: start_unfold idle_world_def demo_world_def)

subsection \<open>Remaining seconds\<close>

lemma td_seconds_within_a_day:
  "0 \<le> d \<Longrightarrow> d < 86400 * 1000000 \<Longrightarrow> td_seconds d = d div 1000000"
  by (simp add: td_seconds_def)

lemma td_seconds_range: "0 \<le> td_seconds d \<and> td_seconds d < 86400"
proof -
  have "0 \<le> d mod (86400 * 1000000)" "d mod (86400 * 1000000) < 86400 * 1000000"
    by simp_all
  then show ?thesis unfolding td_seconds_def by (simp add: div_int_pos_iff) 
qed

lemma remaining_seconds_within_a_day:
  "last_activity_of i = Some la \<Longrightarrow> la \<le> now \<Longrightarrow> now - la < 86400 * 1000000 \<Longrightarrow>
   remaining_seconds now i = Inr (max 0 (ttl_seconds i - (now - la) div 1000000))"
  by (simp add: remaining_seconds_def td_seconds_within_a_day)

text \<open>
  Claim C9 fails on the code. \<^verbatim>\<open>.seconds\<close> is the seconds within the day of the elapsed
  time, not the elapsed time: one day and ten seconds after its last activity, the session
  with a TTL of 120 s is reported by \<^verbatim>\<open>list_sessions\<close>, \<^verbatim>\<open>get_session\<close> and
  \<^verbatim>\<open>container_status\<close> with 110 remaining seconds, where the claim's formula over the
  full 86410 elapsed seconds gives 0. The last part reaches such a table through the
  endpoints alone: two starts, the first with a TTL that stops every pass of the reaper
  (see the reaper below), and \<^verbatim>\<open>list_sessions\<close> a day later.
\<close>

theorem remaining_seconds_wraps_after_a_day:
  "last_activity demo_session = Some 1000000
   \<and> (86411000000 - 1000000) div 1000000 = (86410 :: int)
   \<and> max 0 (ttl_seconds demo_session - 86410) = 0
   \<and> list_sessions 86411000000 demo_world =
       Inr ([session_entry_of ''0123456789ab'' demo_session 110], 1)
   \<and> map_sum id (sn_remaining_seconds \<circ> fst) (get_session 86411000000 ''5f2b'' demo_world) = Inr 110
   \<and> map_sum id (map se_session \<circ> active_list) (fst (container_status 86411000000 demo_world)) =
       Inr [Some \<lparr>st_session_id = Some ''5f2b'', st_ttl_seconds = 120, st_remaining_seconds = 110\<rparr>]
   \<and> map_sum id (map (\<lambda>e. (sn_container_id e, sn_ttl_seconds e, sn_last_activity e,
                              sn_remaining_seconds e)) \<circ> fst)
        (list_sessions 86411000000
          (session_cleanup_loop [31000000, 61000000, 86401000000]
            (snd (container_start demo_start_env
               (demo_start_request\<lparr>code := None, keep_alive := True, req_ttl_seconds := Some 120\<rparr>)
               (snd (container_start
                  (demo_start_env\<lparr>env_new_id := ''aaaaaaaaaaaa0000'', env_uuid4 := ''a1''\<rparr>)
                  (demo_start_request\<lparr>code := None, keep_alive := True,
                                        req_ttl_seconds := Some (- 100000000000000)\<rparr>)
                  idle_world)))))) =
       Inr [(''aaaaaaaaaaaa'', - 100000000000000, Some 1000000, 0),
            (''0123456789ab'', 120, Some 1000000, 110)]"
  by (simp add: list_sessions_def get_session_def container_status_def get_tracked_containers_def
      remaining_seconds_def last_activity_of_def td_seconds_def demo_session_def
      containers_get_def session_entry_of_def
      start_unfold idle_world_def demo_world_def cleanup_expired_sessions_def
      expires_at_def timedelta_of_seconds_def)

subsection \<open>One pass of the reaper\<close>

lemma stop_and_remove_quietly_frame [simp]:
  "active_containers (stop_and_remove_quietly c w) = active_containers w"
  "client_ready (stop_and_remove_quietly c w) = client_ready w"
  "registry (stop_and_remove_quietly c w) = registry w"
  by (simp_all add: stop_and_remove_quietly_def split_def split: sum.splits)

lemma cleanup_loop_table:
  "active_containers (snd (cleanup_loop now xs w)) =
     filter (\<lambda>p. fst p \<notin> set (reaped now xs)) (active_containers w)"
proof (induction xs arbitrary: w)
  case Nil
  then show ?case by simp
next
  case (Cons p xs)
  obtain c i where p: "p = (c, i)" by (cases p)
  show ?case
    unfolding p
    by (auto simp add: Cons.IH AList.delete_eq split: sum.splits intro: filter_cong)
qed

lemma cleanup_loop_returns:
  "\<forall>p\<in>set xs. persistent (snd p) \<longrightarrow> (\<exists>t. expires_at (snd p) = Inr t) \<Longrightarrow>
   fst (cleanup_loop now xs w) = Inr ()"
  by (induction xs arbitrary: w) (auto split: sum.splits)

lemma reaped_complete:
  assumes "\<forall>p\<in>set xs. persistent (snd p) \<longrightarrow> (\<exists>t. expires_at (snd p) = Inr t)"
  shows "c \<in> set (reaped now xs) \<longleftrightarrow>
         (\<exists>i t. (c, i) \<in> set xs \<and> persistent i \<and> expires_at i = Inr t \<and> t < now)"
  using assms
proof (induction xs)
  case Nil
  then show ?case by simp
next
  case (Cons p xs)
  obtain a b where p: "p = (a, b)" by (cases p)
  have ih: "c \<in> set (reaped now xs) \<longleftrightarrow>
         (\<exists>i t. (c, i) \<in> set xs \<and> persistent i \<and> expires_at i = Inr t \<and> t < now)"
    using Cons by simp
  show ?case
  proof (cases "persistent b")
    case False
    then show ?thesis unfolding p using ih by auto
  next
    case True
    then obtain t where t: "expires_at b = Inr t" using Cons.prems p by auto
    show ?thesis unfolding p using ih True t by auto
  qed
qed

lemma reaped_persistent:
  "c \<in> set (reaped now xs) \<Longrightarrow> \<exists>i. (c, i) \<in> set xs \<and> persistent i"
  by (induction xs) (fastforce split: sum.splits if_splits)+

lemma map_of_filter_key:
  "map_of (filter (\<lambda>p. fst p \<notin> S) xs) k = (if k \<in> S then None else map_of xs k)"
  by (induction xs) auto

lemma expires_at_value:
  "expires_at i = Inr t \<Longrightarrow> last_activity_of i = Some la \<Longrightarrow> t = la + ttl_seconds i * 1000000"
  by (auto simp add: expires_at_def timedelta_of_seconds_def datetime_add_def
      split: if_splits sum.splits)

text \<open>
  What one pass does when the client is available and the expiry of every persistent
  record can be computed: it ends without an exception; every persistent record with
  \<open>now - last_activity > ttl_seconds\<close> (here in microseconds) is gone from the table,
  whatever the daemon answered to get, stop and remove; every other record is still there.
\<close>

lemma cleanup_expired_sessions_pass:
  assumes client: "fst (get_docker_client w)"
    and ok: "\<forall>p\<in>set (active_containers w). persistent (snd p) \<longrightarrow> (\<exists>t. expires_at (snd p) = Inr t)"
    and dict: "distinct (map fst (active_containers w))"
    and rec: "(c, i) \<in> set (active_containers w)"
  shows "fst (cleanup_expired_sessions now w) = Inr ()"
    and "persistent i \<Longrightarrow> last_activity_of i = Some la \<Longrightarrow> now - la > ttl_seconds i * 1000000 \<Longrightarrow>
         map_of (active_containers (snd (cleanup_expired_sessions now w))) c = None"
    and "persistent i \<Longrightarrow> last_activity_of i = Some la \<Longrightarrow> now - la \<le> ttl_seconds i * 1000000 \<Longrightarrow>
         map_of (active_containers (snd (cleanup_expired_sessions now w))) c = Some i"
    and "\<not> persistent i \<Longrightarrow>
         map_of (active_containers (snd (cleanup_expired_sessions now w))) c = Some i"
proof -
  let ?w1 = "snd (get_docker_client w)"
  let ?T = "active_containers w"
  have eq: "cleanup_expired_sessions now w = cleanup_loop now ?T ?w1"
    using client by (simp add: cleanup_expired_sessions_def split_def get_tracked_containers_def)
  have tab: "active_containers (snd (cleanup_expired_sessions now w)) =
     filter (\<lambda>p. fst p \<notin> set (reaped now ?T)) ?T"
    unfolding eq by (simp add: cleanup_loop_table)
  have only: "\<And>j. (c, j) \<in> set ?T \<Longrightarrow> j = i"
    using dict rec by (meson eq_key_imp_eq_value)
  have m: "map_of ?T c = Some i" using dict rec by simp
  have sel: "map_of (filter (\<lambda>p. fst p \<notin> set (reaped now ?T)) ?T) c =
     (if c \<in> set (reaped now ?T) then None else Some i)"
    using m by (simp add: map_of_filter_key)
  note rc = reaped_complete[OF ok, of _ now]
  show "fst (cleanup_expired_sessions now w) = Inr ()"
    unfolding eq using ok by (rule cleanup_loop_returns)
  {
    assume p: "persistent i" and l: "last_activity_of i = Some la"
    obtain t where t: "expires_at i = Inr t" using ok rec p by force
    have tv: "t = la + ttl_seconds i * 1000000" using expires_at_value[OF t l] .
    {
      assume "now - la > ttl_seconds i * 1000000"
      then have "t < now" using tv by simp
      then have "c \<in> set (reaped now ?T)" using rc[of c] rec p t by blast
      then show "map_of (active_containers (snd (cleanup_expired_sessions now w))) c = None"
        using tab sel by simp
    }
    {
      assume "now - la \<le> ttl_seconds i * 1000000"
      then have "\<not> t < now" using tv by simp
      then have "c \<notin> set (reaped now ?T)" using rc[of c] only t by auto
      then show "map_of (active_containers (snd (cleanup_expired_sessions now w))) c = Some i"
        using tab sel by simp
    }
  }
  {
    assume "\<not> persistent i"
    then have "c \<notin> set (reaped now ?T)" using reaped_persistent[of c now ?T] only by auto
    then show "map_of (active_containers (snd (cleanup_expired_sessions now w))) c = Some i"
      using tab sel by simp
  }
qed

text \<open>Records with \<open>persistent = False\<close> are never evicted by a pass, whatever happens in it.\<close>

lemma cleanup_expired_sessions_keeps_one_shot:
  assumes dict: "distinct (map fst (active_containers w))"
    and rec: "(c, i) \<in> set (active_containers w)" and np: "\<not> persistent i"
  shows "map_of (active_containers (snd (cleanup_expired_sessions now w))) c = Some i"
proof -
  let ?T = "active_containers w"
  have only: "\<And>j. (c, j) \<in> set ?T \<Longrightarrow> j = i"
    using dict rec by (meson eq_key_imp_eq_value)
  have m: "map_of ?T c = Some i" using dict rec by simp
  have n: "c \<notin> set (reaped now ?T)" using reaped_persistent[of c now ?T] only np by auto
  have "active_containers (snd (cleanup_expired_sessions now w)) = ?T \<or>
        active_containers (snd (cleanup_expired_sessions now w)) =
          filter (\<lambda>p. fst p \<notin> set (reaped now ?T)) ?T"
    by (simp add: cleanup_expired_sessions_def split_def get_tracked_containers_def
        cleanup_loop_table split: bool.splits)
  then show ?thesis using m n by (auto simp add: map_of_filter_key)
qed


text \<open>
  Claim C8 fails on the code. \<^verbatim>\<open>container_start\<close> stores a requested TTL of
  \<open>-100000000000000\<close> as it is, since only the upper bound is clamped. In every pass of the
  reaper \<^verbatim>\<open>timedelta(seconds=ttl)\<close> then raises \<^verbatim>\<open>OverflowError\<close> at this record; the
  exception ends the pass, \<^verbatim>\<open>session_cleanup_loop\<close> logs it, and neither this record nor
  the session started after it with a TTL of 5 s is removed, 40 s and 70 s after their
  last activity.
\<close>

theorem reaper_stopped_by_overflow:
  "http_status (fst (container_start
       (demo_start_env\<lparr>env_new_id := ''aaaaaaaaaaaa0000'', env_uuid4 := ''a1''\<rparr>)
       (demo_start_request\<lparr>code := None, keep_alive := True,
                             req_ttl_seconds := Some (- 100000000000000)\<rparr>) idle_world)) = 200
   \<and> map (\<lambda>p. (fst p, persistent (snd p), ttl_seconds (snd p), last_activity (snd p)))
        (active_containers (snd (container_start demo_start_env
           (demo_start_request\<lparr>code := None, keep_alive := True, req_ttl_seconds := Some 5\<rparr>)
           (snd (container_start
              (demo_start_env\<lparr>env_new_id := ''aaaaaaaaaaaa0000'', env_uuid4 := ''a1''\<rparr>)
              (demo_start_request\<lparr>code := None, keep_alive := True,
                                    req_ttl_seconds := Some (- 100000000000000)\<rparr>) idle_world))))) =
       [(''aaaaaaaaaaaa'', True, - 100000000000000, Some 1000000),
        (''0123456789ab'', True, 5, Some 1000000)]
   \<and> fst (cleanup_expired_sessions 41000000
        (snd (container_start demo_start_env
           (demo_start_request\<lparr>code := None, keep_alive := True, req_ttl_seconds := Some 5\<rparr>)
           (snd (container_start
              (demo_start_env\<lparr>env_new_id := ''aaaaaaaaaaaa0000'', env_uuid4 := ''a1''\<rparr>)
              (demo_start_request\<lparr>code := None, keep_alive := True,
                                    req_ttl_seconds := Some (- 100000000000000)\<rparr>) idle_world))))) =
       Inl OverflowError
   \<and> map fst (active_containers (session_cleanup_loop [41000000, 71000000]
        (snd (container_start demo_start_env
           (demo_start_request\<lparr>code := None, keep_alive := True, req_ttl_seconds := Some 5\<rparr>)
           (snd (container_start
              (demo_start_env\<lparr>env_new_id := ''aaaaaaaaaaaa0000'', env_uuid4 := ''a1''\<rparr>)
              (demo_start_request\<lparr>code := None, keep_alive := True,
                                    req_ttl_seconds := Some (- 100000000000000)\<rparr>) idle_world)))))) =
       [''aaaaaaaaaaaa'', ''0123456789ab'']"
  by (simp add: start_unfold idle_world_def demo_world_def cleanup_expired_sessions_def
      get_tracked_containers_def expires_at_def timedelta_of_seconds_def)

end
